theory Spec2Isabelle
  imports Main "HOL-Library.AList" "HOL-Library.Sublist"
begin

section \<open>Errors\<close>

text \<open>
  A Go \<open>error\<close> value. \<open>nil\<close> is \<open>None\<close> of \<open>error option\<close>. \<open>Errorf\<close> stands for an
  error made by \<open>fmt.Errorf\<close> or \<open>errors.New\<close> (a message), \<open>Wrapped\<close> for one made
  by \<open>errors.Wrapf\<close> of github.com/pkg/errors (a cause and a message).
\<close>

datatype error = Errorf string | Wrapped error string

text \<open>
  \<open>errors.Wrapf(err, format, args...)\<close> of github.com/pkg/errors. Its documentation:
  "Wrapf returns an error annotating err with a stack trace at the point Wrapf is
  called, and the format specifier. If err is nil, Wrapf returns nil."
\<close>

definition Wrapf :: "error option \<Rightarrow> string \<Rightarrow> error option" where
  "Wrapf err msg = (case err of None \<Rightarrow> None | Some e \<Rightarrow> Some (Wrapped e msg))"

section \<open>Data of the devfile, of the environment file and of the container engine\<close>

type_synonym labels = "(string \<times> string) list"
  \<comment> \<open>a Go \<open>map[string]string\<close>: an association list, read with \<open>map_of\<close>,
      written with \<open>AList.update\<close>\<close>

text \<open>\<open>versionsCommon.Endpoint\<close>, \<open>versionsCommon.Env\<close>, \<open>versionsCommon.Container\<close> and
  \<open>versionsCommon.DevfileComponent\<close> (the fields this file reads).\<close>

record Endpoint =
  Endpoint_Name :: string
  TargetPort :: int

record Env =
  Env_Name :: string
  Env_Value :: string

record Container =
  Name :: string
  Image :: string
  Command :: "string list"
  Args :: "string list"
  Env :: "Env list"
  Endpoints :: "Endpoint list"
  MountSources :: bool

text \<open>\<open>envinfo.EnvInfoURL\<close>: a persisted exposed URL; \<open>envinfo.EnvSpecificInfo\<close> with its
  getter \<open>GetURL\<close>.\<close>

record EnvInfoURL =
  URL_Name :: string
  Port :: int
  ExposedPort :: int

record EnvSpecificInfo =
  GetURL :: "EnvInfoURL list"

text \<open>\<open>nat.Port\<close> is a string (\<open>"8080/tcp"\<close>); \<open>nat.PortBinding\<close>; \<open>nat.PortMap\<close> is a
  \<open>map[nat.Port][]nat.PortBinding\<close>.\<close>

type_synonym Port = string

record PortBinding =
  HostIP :: string
  HostPort :: string

type_synonym PortMap = "(Port \<times> PortBinding list) list"

definition LocalhostIP :: string where
  "LocalhostIP = ''127.0.0.1''"

definition projectSourceVolumeName :: string where
  "projectSourceVolumeName = ''odo-project-source''"

text \<open>\<open>types.Volume\<close>, \<open>types.Container\<close>, \<open>types.MountPoint\<close>, \<open>mount.Mount\<close>,
  \<open>container.Config\<close> and \<open>container.HostConfig\<close> of the Docker API (the fields that
  this file or its collaborators read), and the zero value \<open>container.HostConfig{}\<close>.\<close>

record Volume =
  Volume_Name :: string
  Volume_Labels :: labels

record types_Container =
  ID :: string
  Labels :: labels
  Container_Command :: string

record MountPoint =
  MountPoint_Source :: string
  MountPoint_Destination :: string

record Mount =
  Type :: string
  Source :: string
  Target :: string

record Config =
  Config_Image :: string
  Config_Entrypoint :: "string list"
  Config_Cmd :: "string list"
  Config_Env :: "string list"
  Config_Labels :: labels
  Config_ExposedPorts :: "Port list"

record HostConfig =
  PortBindings :: PortMap
  Mounts :: "Mount list"
  Binds :: "string list"
  Privileged :: bool
  PublishAllPorts :: bool

definition HostConfig_zero :: HostConfig where
  "HostConfig_zero =
     \<lparr>PortBindings = [], Mounts = [], Binds = [], Privileged = False, PublishAllPorts = False\<rparr>"

text \<open>\<open>common.DevfileVolume\<close>, \<open>common.Storage\<close>, \<open>versionsCommon.Exec\<close>,
  \<open>versionsCommon.DevfileCommand\<close>, \<open>versionsCommon.DevfileComponent\<close>,
  \<open>common.ComponentInfo\<close>, the command groups and \<open>common.PushCommandsMap\<close>. The
  pointers \<open>comp.Container\<close> and \<open>command.Exec\<close> are never nil in what the collaborators
  hand over (a supported component has a container, a push command has an exec action),
  so the model holds the structs themselves.\<close>

record DevfileVolume =
  DevfileVolume_Name :: string
  ContainerPath :: string
  Size :: string

record Storage =
  Storage_Name :: string
  Storage_Volume :: DevfileVolume

record Exec =
  Id :: string
  Component :: string
  CommandLine :: string
  WorkingDir :: string
  Attributes :: labels

record DevfileCommand =
  Exec :: Exec

record DevfileComponent =
  Container :: Container

record ComponentInfo =
  ContainerName :: string

datatype DevfileCommandGroupType =
  InitCommandGroupType | BuildCommandGroupType | RunCommandGroupType
  | TestCommandGroupType | DebugCommandGroupType

type_synonym PushCommandsMap = "(DevfileCommandGroupType \<times> DevfileCommand) list"
  \<comment> \<open>a Go map that this file only reads: an association list, read with \<open>map_of\<close>\<close>

section \<open>The port mapper\<close>

text \<open>\<open>strconv.Itoa\<close>: the decimal digits of an integer, with a minus sign when negative.\<close>

definition digit :: "nat \<Rightarrow> char" where
  "digit d = ''0123456789'' ! d"

fun digits :: "nat \<Rightarrow> string" where
  "digits n = (if n < 10 then [digit n] else digits (n div 10) @ [digit (n mod 10)])"

declare digits.simps [simp del]

definition Itoa :: "int \<Rightarrow> string" where
  "Itoa i = (if i < 0 then CHR ''-'' # digits (nat (- i)) else digits (nat i))"

text \<open>
  Modelled from the spec: \<open>common.IsPortPresent\<close> is not under src/. The spec's port
  mapper asks whether the URL's "container port matches a declared Endpoint": the
  endpoints are searched in order for one whose target port is the given port.
\<close>

fun IsPortPresent :: "Endpoint list \<Rightarrow> int \<Rightarrow> bool" where
  "IsPortPresent [] port = False"
| "IsPortPresent (endpoint # endpoints) port =
     (if TargetPort endpoint = port then True else IsPortPresent endpoints port)"

text \<open>
  The loop of \<open>getPortMap\<close> over \<open>urlArr\<close> (lines 321 to 342), with the two maps it
  fills as accumulators. \<open>NewPort\<close> is \<open>nat.NewPort\<close> of docker/go-connections, taken as
  a parameter: it parses the port and may fail. The \<open>show\<close> flag only selects a log
  line, which the model leaves out. A Go result \<open>(portmap, names, err)\<close> is a triple;
  the \<open>nil\<close> map of \<open>return nil, nil, err\<close> is the empty association list.
\<close>

fun getPortMap_loop ::
  "(string \<Rightarrow> string \<Rightarrow> Port \<times> error option) \<Rightarrow> Endpoint list \<Rightarrow> bool \<Rightarrow> EnvInfoURL list \<Rightarrow>
   PortMap \<Rightarrow> (Port \<times> string) list \<Rightarrow> PortMap \<times> (Port \<times> string) list \<times> error option" where
  "getPortMap_loop NewPort endpoints show [] portmap namePortMapping =
     (portmap, namePortMapping, None)"
| "getPortMap_loop NewPort endpoints show (url # urlArr) portmap namePortMapping =
     (if ExposedPort url > 0 \<and> IsPortPresent endpoints (Port url) then
        (case NewPort ''tcp'' (Itoa (Port url)) of
           (port, err) \<Rightarrow>
             if err \<noteq> None then ([], [], err)
             else getPortMap_loop NewPort endpoints show urlArr
               (AList.update port [\<lparr>HostIP = LocalhostIP, HostPort = Itoa (ExposedPort url)\<rparr>] portmap)
               (AList.update port (URL_Name url) namePortMapping))
      else if ExposedPort url > 0 \<and> length endpoints > 0 \<and> \<not> IsPortPresent endpoints (Port url) then
        ([], [], Some (Errorf ''Error creating url: odo url config's port is not present in the devfile. Please re-create odo url with the new devfile port''))
      else getPortMap_loop NewPort endpoints show urlArr portmap namePortMapping)"

section \<open>The collaborators: the runtime client and the imported packages\<close>

text \<open>
  The state of everything outside this file (the container engine, the file system of
  the host, the processes in the containers) is a value of a type \<open>'w\<close> that the model
  never looks into. A call that only reads takes the world and returns a Go result (a
  value and an \<open>error option\<close>); a call that can change something returns the new world
  as well. \<open>lclient.Client\<close>, the receiver \<open>a.Client\<close>:
\<close>

record 'w Client =
  GetVolumesByLabel :: "labels \<Rightarrow> 'w \<Rightarrow> Volume list \<times> error option"
  CreateVolume :: "string \<Rightarrow> labels \<Rightarrow> 'w \<Rightarrow> (Volume \<times> error option) \<times> 'w"
  GetContainersByComponentAndAlias :: "string \<Rightarrow> string \<Rightarrow> 'w \<Rightarrow> types_Container list \<times> error option"
  GetContainerConfigHostConfigAndMounts ::
    "string \<Rightarrow> 'w \<Rightarrow> Config \<times> HostConfig \<times> MountPoint list \<times> error option"
  RemoveContainer :: "string \<Rightarrow> 'w \<Rightarrow> error option \<times> 'w"
  PullImage :: "string \<Rightarrow> 'w \<Rightarrow> error option \<times> 'w"
  StartContainer :: "Config \<Rightarrow> HostConfig \<Rightarrow> 'w \<Rightarrow> error option \<times> 'w"
  GenerateContainerConfig ::
    "string \<Rightarrow> string list \<Rightarrow> string list \<Rightarrow> string list \<Rightarrow> labels \<Rightarrow> Port list \<Rightarrow> Config"
  GenerateHostConfig :: "bool \<Rightarrow> bool \<Rightarrow> PortMap \<Rightarrow> HostConfig"

text \<open>
  The functions and constants of the packages this file imports (\<open>utils\<close>, \<open>common\<close>,
  \<open>storage\<close>, \<open>exec\<close>, \<open>envinfo\<close>, \<open>lclient\<close> of this repository; \<open>os\<close> and \<open>nat\<close>
  from outside), none of them under src/: parameters of the model. \<open>storage_Create\<close>
  is \<open>storage.New(a.AdapterContext, a.Client).Create\<close>; the \<open>exec\<close> functions run
  through the client they are given. \<open>'d\<close> is the devfile's data.
\<close>

record ('w, 'd) Pkg =
  utils_GetProjectVolumeLabels :: "string \<Rightarrow> labels"
  utils_GetContainerLabels :: "string \<Rightarrow> string \<Rightarrow> labels"
  utils_ConvertEnvs :: "Env list \<Rightarrow> string list"
  utils_ConvertPorts :: "Endpoint list \<Rightarrow> Port list"
  utils_DoesContainerNeedUpdating ::
    "DevfileComponent \<Rightarrow> Config \<Rightarrow> HostConfig \<Rightarrow> Mount list \<Rightarrow> MountPoint list \<Rightarrow> PortMap \<Rightarrow> bool"
  utils_UpdateComponentWithSupervisord ::
    "DevfileComponent \<Rightarrow> DevfileCommand \<Rightarrow> string \<Rightarrow> HostConfig \<Rightarrow> DevfileComponent \<times> HostConfig"
  utils_AddVolumeToContainer :: "string \<Rightarrow> string \<Rightarrow> HostConfig \<Rightarrow> HostConfig"
  utils_GetContainerIDForAlias :: "types_Container list \<Rightarrow> string \<Rightarrow> string"
  common_GetSupportedComponents :: "'d \<Rightarrow> DevfileComponent list"
  common_GetRunCommand :: "'d \<Rightarrow> string \<Rightarrow> DevfileCommand \<times> error option"
  common_IsEnvPresent :: "Env list \<Rightarrow> string \<Rightarrow> bool"
  common_IsRestartRequired :: "DevfileCommand \<Rightarrow> bool"
  common_EnvCheProjectsRoot :: string
  common_SupervisordBinaryPath :: string
  common_SupervisordConfFile :: string
  lclient_OdoSourceVolumeMount :: string
  storage_GenerateVolName :: "string \<Rightarrow> string \<Rightarrow> 'w \<Rightarrow> string \<times> error option"
  storage_Create :: "Storage list \<Rightarrow> 'w \<Rightarrow> error option \<times> 'w"
  os_Getwd :: "'w \<Rightarrow> string \<times> error option"
  envinfo_NewEnvSpecificInfo :: "string \<Rightarrow> 'w \<Rightarrow> EnvSpecificInfo \<times> error option"
  nat_NewPort :: "string \<Rightarrow> string \<Rightarrow> Port \<times> error option"
  nat_Port_Port :: "Port \<Rightarrow> string"
  exec_ExecuteDevfileBuildAction ::
    "Exec \<Rightarrow> string \<Rightarrow> ComponentInfo \<Rightarrow> bool \<Rightarrow> 'w \<Rightarrow> error option \<times> 'w"
  exec_ExecuteDevfileRunAction ::
    "Exec \<Rightarrow> string \<Rightarrow> ComponentInfo \<Rightarrow> bool \<Rightarrow> 'w \<Rightarrow> error option \<times> 'w"
  exec_ExecuteDevfileRunActionWithoutRestart ::
    "Exec \<Rightarrow> string \<Rightarrow> ComponentInfo \<Rightarrow> bool \<Rightarrow> 'w \<Rightarrow> error option \<times> 'w"
  exec_ExecuteCommand :: "ComponentInfo \<Rightarrow> string list \<Rightarrow> bool \<Rightarrow> 'w \<Rightarrow> error option \<times> 'w"

text \<open>The receiver \<open>a Adapter\<close> (the fields this file reads).\<close>

record ('w, 'd) Adapter =
  ComponentName :: string
  Context :: string
  Devfile_Data :: 'd
  Client :: "'w Client"
  uniqueStorage :: "Storage list"
  componentAliasToVolumes :: "string \<rightharpoonup> DevfileVolume list"
  volumeNameToDockerVolName :: "string \<rightharpoonup> string"
  supervisordVolumeName :: string
  devfileRunCmd :: string

section \<open>The calls made on the collaborators\<close>

text \<open>
  Every call on the client, on the storage adapter and on the \<open>exec\<close> package is
  recorded, in the order made, next to the world it acts on: the trace is how the
  theorems speak of what was called, how often and in which order. The two listing calls
  are recorded with what they returned.
\<close>

datatype event =
    Call_GetVolumesByLabel labels "Volume list \<times> error option"
  | Call_CreateVolume string labels
  | Call_GetContainersByComponentAndAlias string string "types_Container list \<times> error option"
  | Call_GetContainerConfigHostConfigAndMounts string
  | Call_RemoveContainer string
  | Call_PullImage string
  | Call_StartContainer Config HostConfig
  | Call_storage_Create "Storage list"
  | Call_ExecuteDevfileBuildAction Exec string ComponentInfo bool
  | Call_ExecuteDevfileRunAction Exec string ComponentInfo bool
  | Call_ExecuteDevfileRunActionWithoutRestart Exec string ComponentInfo bool
  | Call_ExecuteCommand ComponentInfo "string list" bool

record 'w state =
  trace :: "event list"
  world :: 'w

definition reading :: "('r \<Rightarrow> event) \<Rightarrow> ('w \<Rightarrow> 'r) \<Rightarrow> 'w state \<Rightarrow> 'r \<times> 'w state" where
  "reading ev f s = (let r = f (world s) in (r, s\<lparr>trace := trace s @ [ev r]\<rparr>))"

definition acting :: "event \<Rightarrow> ('w \<Rightarrow> 'r \<times> 'w) \<Rightarrow> 'w state \<Rightarrow> 'r \<times> 'w state" where
  "acting ev f s = (case f (world s) of (r, w) \<Rightarrow> (r, \<lparr>trace = trace s @ [ev], world = w\<rparr>))"

definition Client_GetVolumesByLabel ::
  "('w, 'd) Adapter \<Rightarrow> labels \<Rightarrow> 'w state \<Rightarrow> (Volume list \<times> error option) \<times> 'w state" where
  "Client_GetVolumesByLabel a labels =
     reading (Call_GetVolumesByLabel labels) (GetVolumesByLabel (Client a) labels)"

definition Client_CreateVolume ::
  "('w, 'd) Adapter \<Rightarrow> string \<Rightarrow> labels \<Rightarrow> 'w state \<Rightarrow> (Volume \<times> error option) \<times> 'w state" where
  "Client_CreateVolume a name labels =
     acting (Call_CreateVolume name labels) (CreateVolume (Client a) name labels)"

definition Client_GetContainersByComponentAndAlias ::
  "('w, 'd) Adapter \<Rightarrow> string \<Rightarrow> string \<Rightarrow> 'w state \<Rightarrow>
   (types_Container list \<times> error option) \<times> 'w state" where
  "Client_GetContainersByComponentAndAlias a componentName alias =
     reading (Call_GetContainersByComponentAndAlias componentName alias)
       (GetContainersByComponentAndAlias (Client a) componentName alias)"

definition Client_GetContainerConfigHostConfigAndMounts ::
  "('w, 'd) Adapter \<Rightarrow> string \<Rightarrow> 'w state \<Rightarrow>
   (Config \<times> HostConfig \<times> MountPoint list \<times> error option) \<times> 'w state" where
  "Client_GetContainerConfigHostConfigAndMounts a containerID =
     reading (\<lambda>r. Call_GetContainerConfigHostConfigAndMounts containerID)
       (GetContainerConfigHostConfigAndMounts (Client a) containerID)"

definition Client_RemoveContainer ::
  "('w, 'd) Adapter \<Rightarrow> string \<Rightarrow> 'w state \<Rightarrow> error option \<times> 'w state" where
  "Client_RemoveContainer a containerID =
     acting (Call_RemoveContainer containerID) (RemoveContainer (Client a) containerID)"

definition Client_PullImage ::
  "('w, 'd) Adapter \<Rightarrow> string \<Rightarrow> 'w state \<Rightarrow> error option \<times> 'w state" where
  "Client_PullImage a img = acting (Call_PullImage img) (PullImage (Client a) img)"

definition Client_StartContainer ::
  "('w, 'd) Adapter \<Rightarrow> Config \<Rightarrow> HostConfig \<Rightarrow> 'w state \<Rightarrow> error option \<times> 'w state" where
  "Client_StartContainer a containerConfig hostConfig =
     acting (Call_StartContainer containerConfig hostConfig)
       (StartContainer (Client a) containerConfig hostConfig)"

definition stoAdapter_Create ::
  "('w, 'd) Pkg \<Rightarrow> Storage list \<Rightarrow> 'w state \<Rightarrow> error option \<times> 'w state" where
  "stoAdapter_Create P storages = acting (Call_storage_Create storages) (storage_Create P storages)"

definition ExecuteDevfileBuildAction ::
  "('w, 'd) Pkg \<Rightarrow> Exec \<Rightarrow> string \<Rightarrow> ComponentInfo \<Rightarrow> bool \<Rightarrow> 'w state \<Rightarrow> error option \<times> 'w state" where
  "ExecuteDevfileBuildAction P exec commandName compInfo show =
     acting (Call_ExecuteDevfileBuildAction exec commandName compInfo show)
       (exec_ExecuteDevfileBuildAction P exec commandName compInfo show)"

definition ExecuteDevfileRunAction ::
  "('w, 'd) Pkg \<Rightarrow> Exec \<Rightarrow> string \<Rightarrow> ComponentInfo \<Rightarrow> bool \<Rightarrow> 'w state \<Rightarrow> error option \<times> 'w state" where
  "ExecuteDevfileRunAction P exec commandName compInfo show =
     acting (Call_ExecuteDevfileRunAction exec commandName compInfo show)
       (exec_ExecuteDevfileRunAction P exec commandName compInfo show)"

definition ExecuteDevfileRunActionWithoutRestart ::
  "('w, 'd) Pkg \<Rightarrow> Exec \<Rightarrow> string \<Rightarrow> ComponentInfo \<Rightarrow> bool \<Rightarrow> 'w state \<Rightarrow> error option \<times> 'w state" where
  "ExecuteDevfileRunActionWithoutRestart P exec commandName compInfo show =
     acting (Call_ExecuteDevfileRunActionWithoutRestart exec commandName compInfo show)
       (exec_ExecuteDevfileRunActionWithoutRestart P exec commandName compInfo show)"

definition ExecuteCommand ::
  "('w, 'd) Pkg \<Rightarrow> ComponentInfo \<Rightarrow> string list \<Rightarrow> bool \<Rightarrow> 'w state \<Rightarrow> error option \<times> 'w state" where
  "ExecuteCommand P compInfo command show =
     acting (Call_ExecuteCommand compInfo command show) (exec_ExecuteCommand P compInfo command show)"

section \<open>The functions of utils.go\<close>

subsection \<open>getPortMap, generateAndGetHostConfig, generateAndGetContainerConfig\<close>

text \<open>
  \<open>getPortMap\<close> (lines 294 to 343). The working directory and the environment file are
  read from the world. The second test of \<open>err\<close> (line 310) repeats the one made right
  after \<open>os.Getwd\<close>; with a context given \<open>err\<close> is still nil there.
\<close>

definition getPortMap ::
  "('w, 'd) Pkg \<Rightarrow> string \<Rightarrow> Endpoint list \<Rightarrow> bool \<Rightarrow> 'w \<Rightarrow>
   PortMap \<times> (Port \<times> string) list \<times> error option" where
  "getPortMap P context endpoints show w =
     (let portmap = []; namePortMapping = [] in
      case (if context = [] then os_Getwd P w else (context, None)) of
        (dir, err) \<Rightarrow>
          if err \<noteq> None then ([], [], err)
          else
            (case envinfo_NewEnvSpecificInfo P dir w of
               (envInfo, err) \<Rightarrow>
                 if err \<noteq> None then ([], [], err)
                 else
                   (let urlArr = GetURL envInfo in
                    getPortMap_loop (nat_NewPort P) endpoints show urlArr portmap namePortMapping)))"

text \<open>
  The loop \<open>for port, urlName := range namePortMapping { containerConfig.Labels[port.Port()] = urlName }\<close>
  of lines 163 to 165 and 253 to 255.
\<close>

definition setPortLabels :: "('w, 'd) Pkg \<Rightarrow> (Port \<times> string) list \<Rightarrow> Config \<Rightarrow> Config" where
  "setPortLabels P namePortMapping containerConfig =
     fold (\<lambda>(port, urlName) c. c\<lparr>Config_Labels := AList.update (nat_Port_Port P port) urlName (Config_Labels c)\<rparr>)
       namePortMapping containerConfig"

definition generateAndGetContainerConfig ::
  "('w, 'd) Pkg \<Rightarrow> ('w, 'd) Adapter \<Rightarrow> string \<Rightarrow> DevfileComponent \<Rightarrow> Config" where
  "generateAndGetContainerConfig P a componentName compt =
     (let envVars = utils_ConvertEnvs P (Env (Container compt));
          ports = utils_ConvertPorts P (Endpoints (Container compt));
          containerLabels = utils_GetContainerLabels P componentName (Name (Container compt));
          containerConfig =
            GenerateContainerConfig (Client a) (Image (Container compt)) (Command (Container compt))
              (Args (Container compt)) envVars containerLabels ports
      in containerConfig)"

definition generateAndGetHostConfig ::
  "('w, 'd) Pkg \<Rightarrow> ('w, 'd) Adapter \<Rightarrow> Endpoint list \<Rightarrow> 'w \<Rightarrow>
   HostConfig \<times> (Port \<times> string) list \<times> error option" where
  "generateAndGetHostConfig P a endpoints w =
     (case getPortMap P (Context a) endpoints True w of
        (portMap, namePortMapping, err) \<Rightarrow>
          if err \<noteq> None then (HostConfig_zero, [], err)
          else
            (let hostConfig =
                   (if length portMap > 0 then GenerateHostConfig (Client a) False False portMap
                    else HostConfig_zero)
             in (hostConfig, namePortMapping, None)))"

subsection \<open>startComponent and pullAndStartContainer\<close>

text \<open>\<open>startComponent\<close> (lines 223 to 267): its one call that acts on the engine is
  \<open>StartContainer\<close>.\<close>

definition startComponent ::
  "('w, 'd) Pkg \<Rightarrow> ('w, 'd) Adapter \<Rightarrow> Mount list \<Rightarrow> string \<Rightarrow> DevfileComponent \<Rightarrow> 'w state \<Rightarrow>
   error option \<times> 'w state" where
  "startComponent P a mounts projectVolumeName compt s =
     (case generateAndGetHostConfig P a (Endpoints (Container compt)) (world s) of
        (hostConfig, namePortMapping, err) \<Rightarrow>
          (let hostConfig = hostConfig\<lparr>Mounts := mounts\<rparr> in
           if err \<noteq> None then (err, s)
           else
             (case common_GetRunCommand P (Devfile_Data a) (devfileRunCmd a) of
                (runCommand, err) \<Rightarrow>
                  if err \<noteq> None then (err, s)
                  else
                    (case utils_UpdateComponentWithSupervisord P compt runCommand
                            (supervisordVolumeName a) hostConfig of
                       (compt, hostConfig) \<Rightarrow>
                         (let hostConfig =
                                (if MountSources (Container compt)
                                 then utils_AddVolumeToContainer P projectVolumeName
                                        (lclient_OdoSourceVolumeMount P) hostConfig
                                 else hostConfig);
                              compt =
                                (if MountSources (Container compt) \<and>
                                    \<not> common_IsEnvPresent P (Env (Container compt)) (common_EnvCheProjectsRoot P)
                                 then
                                   (let envName = common_EnvCheProjectsRoot P;
                                        envValue = lclient_OdoSourceVolumeMount P
                                    in compt\<lparr>Container := (Container compt)
                                         \<lparr>Env := Env (Container compt) @
                                            [\<lparr>Env_Name = envName, Env_Value = envValue\<rparr>]\<rparr>\<rparr>)
                                 else compt);
                              containerConfig = generateAndGetContainerConfig P a (ComponentName a) compt;
                              containerConfig = setPortLabels P namePortMapping containerConfig
                          in Client_StartContainer a containerConfig hostConfig s)))))"

text \<open>\<open>pullAndStartContainer\<close> (lines 202 to 221): the image is pulled, then the
  container is started.\<close>

definition pullAndStartContainer ::
  "('w, 'd) Pkg \<Rightarrow> ('w, 'd) Adapter \<Rightarrow> Mount list \<Rightarrow> string \<Rightarrow> DevfileComponent \<Rightarrow> 'w state \<Rightarrow>
   error option \<times> 'w state" where
  "pullAndStartContainer P a mounts projectVolumeName compt s =
     (case Client_PullImage a (Image (Container compt)) s of
        (err, s) \<Rightarrow>
          if err \<noteq> None
          then (Wrapf err (''Unable to pull '' @ Image (Container compt) @ '' image''), s)
          else
            (case startComponent P a mounts projectVolumeName compt s of
               (err, s) \<Rightarrow>
                 if err \<noteq> None
                 then (Wrapf err (''Unable to start container for devfile component '' @
                         Name (Container compt)), s)
                 else (None, s)))"

text \<open>The mounts of a component's declared volumes (lines 74 to 83 and 129 to 137). A
  Go map read at a missing key gives the zero value: no volumes, the empty name.\<close>

definition dockerVolumeMounts_of :: "('w, 'd) Adapter \<Rightarrow> DevfileComponent \<Rightarrow> Mount list" where
  "dockerVolumeMounts_of a compt =
     map (\<lambda>vol. \<lparr>Type = ''volume'',
                 Source = (case volumeNameToDockerVolName a (DevfileVolume_Name vol) of
                             None \<Rightarrow> [] | Some n \<Rightarrow> n),
                 Target = ContainerPath vol\<rparr>)
       (case componentAliasToVolumes a (Name (Container compt)) of None \<Rightarrow> [] | Some vols \<Rightarrow> vols)"

subsection \<open>createComponent\<close>

text \<open>
  Lines 38 to 58 of \<open>createComponent\<close>: the project source volume is looked up by its
  labels and created when there is none. \<open>Inl r\<close>: \<open>createComponent\<close> returns \<open>r\<close> from
  here; \<open>Inr projectVolumeName\<close>: it goes on. \<open>err\<close> is the function's named result,
  assigned by the listing call and nil once line 41 is passed; line 57 wraps that \<open>err\<close>.
  The \<open>err\<close> of line 50 is a new variable of the inner block.
\<close>

definition createComponent_projectVolume ::
  "('w, 'd) Pkg \<Rightarrow> ('w, 'd) Adapter \<Rightarrow> 'w state \<Rightarrow> (error option + string) \<times> 'w state" where
  "createComponent_projectVolume P a s =
     (let componentName = ComponentName a;
          projectVolumeLabels = utils_GetProjectVolumeLabels P componentName
      in case Client_GetVolumesByLabel a projectVolumeLabels s of
           ((projectVols, err), s) \<Rightarrow>
             if err \<noteq> None
             then (Inl (Wrapf err (''Unable to retrieve source volume for component '' @ componentName)), s)
             else if length projectVols = 0 then
               (case storage_GenerateVolName P projectSourceVolumeName (ComponentName a) (world s) of
                  (projectVolumeName, err) \<Rightarrow>
                    if err \<noteq> None
                    then (Inl (Wrapf err (''Unable to generate project source volume name for component '' @
                            componentName)), s)
                    else
                      (case Client_CreateVolume a projectVolumeName projectVolumeLabels s of
                         ((created, err'), s) \<Rightarrow>
                           if err' \<noteq> None
                           then (Inl (Wrapf err' (''Unable to create project source volume for component '' @
                                   componentName)), s)
                           else (Inr projectVolumeName, s)))
             else if length projectVols = 1 then (Inr (Volume_Name (projectVols ! 0)), s)
             else if length projectVols > 1
             then (Inl (Wrapf err (''Error, multiple source volumes found for component '' @ componentName)), s)
             else (Inr [], s))"

text \<open>The loop of lines 73 to 88.\<close>

fun createComponent_loop ::
  "('w, 'd) Pkg \<Rightarrow> ('w, 'd) Adapter \<Rightarrow> string \<Rightarrow> DevfileComponent list \<Rightarrow> 'w state \<Rightarrow>
   error option \<times> 'w state" where
  "createComponent_loop P a projectVolumeName [] s = (None, s)"
| "createComponent_loop P a projectVolumeName (compt # supportedComponents) s =
     (let dockerVolumeMounts = dockerVolumeMounts_of a compt in
      case pullAndStartContainer P a dockerVolumeMounts projectVolumeName compt s of
        (err, s) \<Rightarrow>
          if err \<noteq> None
          then (Wrapf err (''unable to pull and start container '' @ Name (Container compt) @
                  '' for component '' @ ComponentName a), s)
          else createComponent_loop P a projectVolumeName supportedComponents s)"

definition createComponent ::
  "('w, 'd) Pkg \<Rightarrow> ('w, 'd) Adapter \<Rightarrow> 'w state \<Rightarrow> error option \<times> 'w state" where
  "createComponent P a s =
     (let componentName = ComponentName a in
      case createComponent_projectVolume P a s of
        (Inl r, s) \<Rightarrow> (r, s)
      | (Inr projectVolumeName, s) \<Rightarrow>
          (let supportedComponents = common_GetSupportedComponents P (Devfile_Data a) in
           if length supportedComponents = 0
           then (Some (Errorf ''No valid components found in the devfile''), s)
           else
             (case stoAdapter_Create P (uniqueStorage a) s of
                (err, s) \<Rightarrow>
                  if err \<noteq> None
                  then (Wrapf err (''Unable to create Docker storage adapter for component '' @
                          componentName), s)
                  else createComponent_loop P a projectVolumeName supportedComponents s)))"

subsection \<open>updateComponent\<close>

text \<open>
  Lines 99 to 110 of \<open>updateComponent\<close>: the project source volume must be there
  already. \<open>Inl (componentExists, err)\<close>: \<open>updateComponent\<close> returns from here;
  \<open>Inr projectVolumeName\<close>: it goes on. As in \<open>createComponent\<close>, line 108 wraps the
  \<open>err\<close> of the listing call.
\<close>

definition updateComponent_projectVolume ::
  "('w, 'd) Pkg \<Rightarrow> ('w, 'd) Adapter \<Rightarrow> bool \<Rightarrow> 'w state \<Rightarrow>
   ((bool \<times> error option) + string) \<times> 'w state" where
  "updateComponent_projectVolume P a componentExists s =
     (let componentName = ComponentName a;
          volumeLabels = utils_GetProjectVolumeLabels P componentName
      in case Client_GetVolumesByLabel a volumeLabels s of
           ((projectVols, err), s) \<Rightarrow>
             if err \<noteq> None
             then (Inl (componentExists,
                     Wrapf err (''Unable to retrieve source volume for component '' @ componentName)), s)
             else if length projectVols = 0
             then (Inl (componentExists,
                     Some (Errorf (''Unable to find source volume for component '' @ componentName))), s)
             else if length projectVols > 1
             then (Inl (componentExists,
                     Wrapf err (''Error, multiple source volumes found for component '' @ componentName)), s)
             else (Inr (Volume_Name (projectVols ! 0)), s))"

text \<open>
  One pass of the loop body, lines 122 to 196, for the component \<open>compt\<close>.
  \<open>Inl (componentExists, err)\<close>: \<open>updateComponent\<close> returns from here;
  \<open>Inr componentExists\<close>: the loop goes on with this value of the flag. Every \<open>err\<close> of
  the body is a variable of the body (\<open>containers, err := ...\<close> declares it), not the
  function's named result.
\<close>

definition updateComponent_body ::
  "('w, 'd) Pkg \<Rightarrow> ('w, 'd) Adapter \<Rightarrow> string \<Rightarrow> DevfileComponent \<Rightarrow> bool \<Rightarrow> 'w state \<Rightarrow>
   ((bool \<times> error option) + bool) \<times> 'w state" where
  "updateComponent_body P a projectVolumeName compt componentExists s =
     (let componentName = ComponentName a in
      case Client_GetContainersByComponentAndAlias a componentName (Name (Container compt)) s of
        ((containers, err), s) \<Rightarrow>
          if err \<noteq> None
          then (Inl (False, Wrapf err (''unable to list containers for component '' @ componentName)), s)
          else
            (let dockerVolumeMounts = dockerVolumeMounts_of a compt in
             if length containers = 0 then
               (case pullAndStartContainer P a dockerVolumeMounts projectVolumeName compt s of
                  (err, s) \<Rightarrow>
                    if err \<noteq> None
                    then (Inl (False, Wrapf err (''unable to pull and start container '' @
                            Name (Container compt) @ '' for component '' @ componentName)), s)
                    else (Inr False, s))
             else if length containers = 1 then
               (let containerID = ID (containers ! 0) in
                case Client_GetContainerConfigHostConfigAndMounts a containerID s of
                  ((containerConfig, hostConfig, mounts, err), s) \<Rightarrow>
                    if err \<noteq> None
                    then (Inl (componentExists, Wrapf err
                            (''unable to get the container config for component '' @ componentName)), s)
                    else
                      (case getPortMap P (Context a) (Endpoints (Container compt)) False (world s) of
                         (portMap, namePortMapping, err) \<Rightarrow>
                           if err \<noteq> None
                           then (Inl (componentExists, Wrapf err
                                   (''unable to get the port map from env.yaml file for component '' @
                                    componentName)), s)
                           else
                             (let containerConfig = setPortLabels P namePortMapping containerConfig in
                              if utils_DoesContainerNeedUpdating P compt containerConfig hostConfig
                                   dockerVolumeMounts mounts portMap
                              then
                                (case Client_RemoveContainer a containerID s of
                                   (err, s) \<Rightarrow>
                                     if err \<noteq> None
                                     then (Inl (componentExists, Wrapf err
                                             (''Unable to remove container '' @ containerID @
                                              '' for component '' @ Name (Container compt))), s)
                                     else
                                       (case startComponent P a dockerVolumeMounts projectVolumeName compt s of
                                          (err, s) \<Rightarrow>
                                            if err \<noteq> None
                                            then (Inl (False, Wrapf err
                                                    (''Unable to start container for devfile component '' @
                                                     Name (Container compt))), s)
                                            else (Inr False, s)))
                              else (Inr componentExists, s))))
             else
               (Inl (True, Some (Errorf (''Found multiple running containers for devfile component '' @
                  Name (Container compt) @ '' and cannot push changes''))), s)))"

text \<open>
  The loop of lines 121 to 197 and the bare \<open>return\<close> of line 199, which returns the
  named results: the flag, and the function's \<open>err\<close>, last assigned at line 114.
\<close>

fun updateComponent_loop ::
  "('w, 'd) Pkg \<Rightarrow> ('w, 'd) Adapter \<Rightarrow> string \<Rightarrow> error option \<Rightarrow> DevfileComponent list \<Rightarrow> bool \<Rightarrow>
   'w state \<Rightarrow> (bool \<times> error option) \<times> 'w state" where
  "updateComponent_loop P a projectVolumeName err [] componentExists s = ((componentExists, err), s)"
| "updateComponent_loop P a projectVolumeName err (compt # supportedComponents) componentExists s =
     (case updateComponent_body P a projectVolumeName compt componentExists s of
        (Inl r, s) \<Rightarrow> (r, s)
      | (Inr componentExists, s) \<Rightarrow>
          updateComponent_loop P a projectVolumeName err supportedComponents componentExists s)"

definition updateComponent ::
  "('w, 'd) Pkg \<Rightarrow> ('w, 'd) Adapter \<Rightarrow> 'w state \<Rightarrow> (bool \<times> error option) \<times> 'w state" where
  "updateComponent P a s =
     (let componentExists = True in
      case updateComponent_projectVolume P a componentExists s of
        (Inl r, s) \<Rightarrow> (r, s)
      | (Inr projectVolumeName, s) \<Rightarrow>
          (case stoAdapter_Create P (uniqueStorage a) s of
             (err, s) \<Rightarrow>
               (let supportedComponents = common_GetSupportedComponents P (Devfile_Data a) in
                if length supportedComponents = 0
                then ((componentExists, Some (Errorf ''No valid components found in the devfile'')), s)
                else updateComponent_loop P a projectVolumeName err supportedComponents componentExists s)))"

subsection \<open>execDevfile and InitRunContainerSupervisord\<close>

text \<open>\<open>strings.Contains\<close>.\<close>

fun Contains :: "string \<Rightarrow> string \<Rightarrow> bool" where
  "Contains [] substr = (substr = [])"
| "Contains (c # s) substr = (prefix substr (c # s) \<or> Contains s substr)"

text \<open>
  \<open>InitRunContainerSupervisord\<close> (lines 409 to 421): the loop over the containers, with
  the named result \<open>err\<close> as accumulator; each matching container assigns it anew.
  \<open>container.Labels["alias"]\<close> is the empty string when the label is missing.
\<close>

fun InitRunContainerSupervisord_loop ::
  "('w, 'd) Pkg \<Rightarrow> string \<Rightarrow> types_Container list \<Rightarrow> error option \<Rightarrow> 'w state \<Rightarrow>
   error option \<times> 'w state" where
  "InitRunContainerSupervisord_loop P component [] err s = (err, s)"
| "InitRunContainerSupervisord_loop P component (container # containers) err s =
     (if (case map_of (Labels container) ''alias'' of None \<Rightarrow> [] | Some v \<Rightarrow> v) = component \<and>
         \<not> Contains (Container_Command container) (common_SupervisordBinaryPath P)
      then
        (let command = [common_SupervisordBinaryPath P, ''-c'', common_SupervisordConfFile P, ''-d''];
             compInfo = \<lparr>ContainerName = ID container\<rparr>
         in case ExecuteCommand P compInfo command True s of
              (err, s) \<Rightarrow> InitRunContainerSupervisord_loop P component containers err s)
      else InitRunContainerSupervisord_loop P component containers err s)"

definition InitRunContainerSupervisord ::
  "('w, 'd) Pkg \<Rightarrow> ('w, 'd) Adapter \<Rightarrow> string \<Rightarrow> types_Container list \<Rightarrow> 'w state \<Rightarrow>
   error option \<times> 'w state" where
  "InitRunContainerSupervisord P a component containers s =
     InitRunContainerSupervisord_loop P component containers None s"

text \<open>
  \<open>execDevfile\<close> (lines 347 to 405). \<open>commandsMap[group]\<close> with its \<open>ok\<close> is
  \<open>map_of commandsMap group\<close>.
  The named result \<open>err\<close> is nil wherever a stage is passed over.
\<close>

definition execDevfile ::
  "('w, 'd) Pkg \<Rightarrow> ('w, 'd) Adapter \<Rightarrow> PushCommandsMap \<Rightarrow> bool \<Rightarrow> bool \<Rightarrow> types_Container list \<Rightarrow>
   'w state \<Rightarrow> error option \<times> 'w state" where
  "execDevfile P a commandsMap componentExists show containers s =
     (if length commandsMap = 0
      then (Some (Errorf ''error executing devfile commands - there should be at least 1 command''), s)
      else
        (case (if \<not> componentExists then
                 (case map_of commandsMap InitCommandGroupType of
                    Some command \<Rightarrow>
                      (let containerID = utils_GetContainerIDForAlias P containers (Component (Exec command));
                           compInfo = \<lparr>ContainerName = containerID\<rparr>
                       in ExecuteDevfileBuildAction P (Exec command) (Id (Exec command)) compInfo show s)
                  | None \<Rightarrow> (None, s))
               else (None, s)) of
           (err, s) \<Rightarrow>
             if err \<noteq> None then (err, s)
             else
               (case (case map_of commandsMap BuildCommandGroupType of
                        Some command \<Rightarrow>
                          (let containerID = utils_GetContainerIDForAlias P containers (Component (Exec command));
                               compInfo = \<lparr>ContainerName = containerID\<rparr>
                           in ExecuteDevfileBuildAction P (Exec command) (Id (Exec command)) compInfo show s)
                      | None \<Rightarrow> (None, s)) of
                  (err, s) \<Rightarrow>
                    if err \<noteq> None then (err, s)
                    else
                      (case map_of commandsMap RunCommandGroupType of
                         Some command \<Rightarrow>
                           (case (if \<not> componentExists
                                  then InitRunContainerSupervisord P a (Component (Exec command)) containers s
                                  else (None, s)) of
                              (err, s) \<Rightarrow>
                                if err \<noteq> None then (err, s)
                                else
                                  (let containerID = utils_GetContainerIDForAlias P containers
                                                       (Component (Exec command));
                                       compInfo = \<lparr>ContainerName = containerID\<rparr>
                                   in if componentExists \<and> \<not> common_IsRestartRequired P command
                                      then ExecuteDevfileRunActionWithoutRestart P (Exec command)
                                             (Id (Exec command)) compInfo show s
                                      else ExecuteDevfileRunAction P (Exec command)
                                             (Id (Exec command)) compInfo show s))
                       | None \<Rightarrow> (err, s)))))"

section \<open>An example runtime\<close>

text \<open>
  A small container engine and small collaborators, for the concrete inputs at which
  the theorems below are instantiated: volumes and containers are kept in lists and
  found by their labels, the environment file is a list of URLs, every other call
  succeeds and changes nothing. The devfile's data is its list of components.
\<close>

record runtime =
  rt_volumes :: "Volume list"
  rt_containers :: "(types_Container \<times> Config) list"
  rt_urls :: "EnvInfoURL list"

definition example_Client :: "runtime Client" where
  "example_Client =
     \<lparr>GetVolumesByLabel = (\<lambda>labels w. (filter (\<lambda>v. Volume_Labels v = labels) (rt_volumes w), None)),
      CreateVolume = (\<lambda>name labels w.
         ((\<lparr>Volume_Name = name, Volume_Labels = labels\<rparr>, None),
          w\<lparr>rt_volumes := rt_volumes w @ [\<lparr>Volume_Name = name, Volume_Labels = labels\<rparr>]\<rparr>)),
      GetContainersByComponentAndAlias = (\<lambda>componentName alias w.
         (filter (\<lambda>c. map_of (Labels c) ''component'' = Some componentName \<and>
                       map_of (Labels c) ''alias'' = Some alias) (map fst (rt_containers w)), None)),
      GetContainerConfigHostConfigAndMounts = (\<lambda>containerID w.
         (case filter (\<lambda>(c, cfg). ID c = containerID) (rt_containers w) of
            [] \<Rightarrow> (\<lparr>Config_Image = [], Config_Entrypoint = [], Config_Cmd = [], Config_Env = [],
                     Config_Labels = [], Config_ExposedPorts = []\<rparr>, HostConfig_zero, [],
                    Some (Errorf ''No such container''))
          | (c, cfg) # rest \<Rightarrow> (cfg, HostConfig_zero, [], None))),
      RemoveContainer = (\<lambda>containerID w.
         (None, w\<lparr>rt_containers := filter (\<lambda>(c, cfg). ID c \<noteq> containerID) (rt_containers w)\<rparr>)),
      PullImage = (\<lambda>img w. (None, w)),
      StartContainer = (\<lambda>containerConfig hostConfig w.
         (None, w\<lparr>rt_containers := rt_containers w @
            [(\<lparr>ID = ''new'', Labels = Config_Labels containerConfig, Container_Command = []\<rparr>,
              containerConfig)]\<rparr>)),
      GenerateContainerConfig = (\<lambda>img command args envVars labels ports.
         \<lparr>Config_Image = img, Config_Entrypoint = command, Config_Cmd = args, Config_Env = envVars,
          Config_Labels = labels, Config_ExposedPorts = ports\<rparr>),
      GenerateHostConfig = (\<lambda>isPrivileged publishPorts portmap.
         \<lparr>PortBindings = portmap, Mounts = [], Binds = [], Privileged = isPrivileged,
          PublishAllPorts = publishPorts\<rparr>)\<rparr>"

definition example_run :: DevfileCommand where
  "example_run =
     \<lparr>Exec = \<lparr>Id = ''devrun'', Component = ''runtime'', CommandLine = ''npm start'',
              WorkingDir = ''/projects'', Attributes = []\<rparr>\<rparr>"

definition example_Pkg :: "(runtime, DevfileComponent list) Pkg" where
  "example_Pkg =
     \<lparr>utils_GetProjectVolumeLabels = (\<lambda>componentName. [(''component'', componentName), (''type'', ''projects'')]),
      utils_GetContainerLabels = (\<lambda>componentName alias. [(''component'', componentName), (''alias'', alias)]),
      utils_ConvertEnvs = map (\<lambda>e. Env_Name e @ ''='' @ Env_Value e),
      utils_ConvertPorts = map (\<lambda>e. Itoa (TargetPort e) @ ''/tcp''),
      utils_DoesContainerNeedUpdating = (\<lambda>compt containerConfig hostConfig dockerVolumeMounts mounts portMap.
         Config_Image containerConfig \<noteq> Image (Container compt)),
      utils_UpdateComponentWithSupervisord = (\<lambda>compt runCommand supervisordVolumeName hostConfig.
         (compt, hostConfig)),
      utils_AddVolumeToContainer = (\<lambda>projectVolumeName path hostConfig.
         hostConfig\<lparr>Binds := Binds hostConfig @ [projectVolumeName @ '':'' @ path]\<rparr>),
      utils_GetContainerIDForAlias = (\<lambda>containers alias.
         fold (\<lambda>c containerID. if map_of (Labels c) ''alias'' = Some alias then ID c else containerID)
           containers []),
      common_GetSupportedComponents = (\<lambda>d. d),
      common_GetRunCommand = (\<lambda>d name. (example_run, None)),
      common_IsEnvPresent = (\<lambda>envs name. List.member (map Env_Name envs) name),
      common_IsRestartRequired = (\<lambda>command. map_of (Attributes (Exec command)) ''restart'' \<noteq> Some ''false''),
      common_EnvCheProjectsRoot = ''CHE_PROJECTS_ROOT'',
      common_SupervisordBinaryPath = ''/opt/odo/bin/supervisord'',
      common_SupervisordConfFile = ''/opt/odo/conf/devfile-supervisor.conf'',
      lclient_OdoSourceVolumeMount = ''/projects'',
      storage_GenerateVolName = (\<lambda>base componentName w. (base @ ''-'' @ componentName @ ''-abcd'', None)),
      storage_Create = (\<lambda>storages w. (None, w)),
      os_Getwd = (\<lambda>w. (''/home/user/app'', None)),
      envinfo_NewEnvSpecificInfo = (\<lambda>dir w. (\<lparr>GetURL = rt_urls w\<rparr>, None)),
      nat_NewPort = (\<lambda>proto port. (port @ ''/'' @ proto, None)),
      nat_Port_Port = takeWhile (\<lambda>c. c \<noteq> CHR ''/''),
      exec_ExecuteDevfileBuildAction = (\<lambda>exec commandName compInfo show w. (None, w)),
      exec_ExecuteDevfileRunAction = (\<lambda>exec commandName compInfo show w. (None, w)),
      exec_ExecuteDevfileRunActionWithoutRestart = (\<lambda>exec commandName compInfo show w. (None, w)),
      exec_ExecuteCommand = (\<lambda>compInfo command show w. (None, w))\<rparr>"

definition example_Adapter :: "DevfileComponent list \<Rightarrow> (runtime, DevfileComponent list) Adapter" where
  "example_Adapter d =
     \<lparr>ComponentName = ''app'', Context = ''/home/user/app'', Devfile_Data = d,
      Client = example_Client, uniqueStorage = [], componentAliasToVolumes = Map.empty,
      volumeNameToDockerVolName = Map.empty, supervisordVolumeName = ''supervisord'',
      devfileRunCmd = ''devrun''\<rparr>"

definition example_component :: DevfileComponent where
  "example_component =
     \<lparr>Container = \<lparr>Name = ''runtime'', Image = ''node:12'', Command = [], Args = [], Env = [],
                   Endpoints = [\<lparr>Endpoint_Name = ''web'', TargetPort = 8080\<rparr>],
                   MountSources = False\<rparr>\<rparr>"

definition example_volume :: "string \<Rightarrow> Volume" where
  "example_volume name =
     \<lparr>Volume_Name = name, Volume_Labels = [(''component'', ''app''), (''type'', ''projects'')]\<rparr>"

definition example_state :: "Volume list \<Rightarrow> (types_Container \<times> Config) list \<Rightarrow> EnvInfoURL list \<Rightarrow> runtime state" where
  "example_state vols containers urls =
     \<lparr>trace = [], world = \<lparr>rt_volumes = vols, rt_containers = containers, rt_urls = urls\<rparr>\<rparr>"

definition example_urls :: "EnvInfoURL list" where
  "example_urls =
     [\<lparr>URL_Name = ''app'', Port = 8080, ExposedPort = 20001\<rparr>,
      \<lparr>URL_Name = ''admin'', Port = 8080, ExposedPort = 20002\<rparr>]"

definition example_world :: "EnvInfoURL list \<Rightarrow> runtime" where
  "example_world urls = \<lparr>rt_volumes = [], rt_containers = [], rt_urls = urls\<rparr>"

definition example_init :: DevfileCommand where
  "example_init =
     \<lparr>Exec = \<lparr>Id = ''devinit'', Component = ''runtime'', CommandLine = ''npm install'',
              WorkingDir = ''/projects'', Attributes = []\<rparr>\<rparr>"

definition example_build :: DevfileCommand where
  "example_build =
     \<lparr>Exec = \<lparr>Id = ''devbuild'', Component = ''runtime'', CommandLine = ''npm run build'',
              WorkingDir = ''/projects'', Attributes = []\<rparr>\<rparr>"

definition example_run_norestart :: DevfileCommand where
  "example_run_norestart =
     \<lparr>Exec = \<lparr>Id = ''devrun'', Component = ''runtime'', CommandLine = ''npm start'',
              WorkingDir = ''/projects'', Attributes = [(''restart'', ''false'')]\<rparr>\<rparr>"

definition example_commands :: "DevfileCommand \<Rightarrow> PushCommandsMap" where
  "example_commands run =
     [(InitCommandGroupType, example_init), (BuildCommandGroupType, example_build),
      (RunCommandGroupType, run)]"

definition example_containers :: "types_Container list" where
  "example_containers =
     [\<lparr>ID = ''c1'', Labels = [(''component'', ''app''), (''alias'', ''runtime'')],
       Container_Command = ''/bin/sh''\<rparr>]"

definition example_supervisord :: event where
  "example_supervisord =
     Call_ExecuteCommand \<lparr>ContainerName = ''c1''\<rparr>
       [''/opt/odo/bin/supervisord'', ''-c'', ''/opt/odo/conf/devfile-supervisor.conf'', ''-d''] True"

definition example_live :: "string \<Rightarrow> types_Container \<times> Config" where
  "example_live img =
     (\<lparr>ID = ''c1'', Labels = [(''component'', ''app''), (''alias'', ''runtime'')],
       Container_Command = ''/bin/sh''\<rparr>,
      \<lparr>Config_Image = img, Config_Entrypoint = [], Config_Cmd = [], Config_Env = [],
       Config_Labels = [(''component'', ''app''), (''alias'', ''runtime'')],
       Config_ExposedPorts = [''8080/tcp'']\<rparr>)"

definition example_duplicate :: "types_Container \<times> Config" where
  "example_duplicate =
     (\<lparr>ID = ''c2'', Labels = [(''component'', ''app''), (''alias'', ''runtime'')],
       Container_Command = ''/bin/sh''\<rparr>,
      snd (example_live ''node:12''))"

section \<open>Evaluation\<close>

lemmas call_defs =
  reading_def acting_def Client_GetVolumesByLabel_def Client_CreateVolume_def
  Client_GetContainersByComponentAndAlias_def Client_GetContainerConfigHostConfigAndMounts_def
  Client_RemoveContainer_def Client_PullImage_def Client_StartContainer_def stoAdapter_Create_def
  ExecuteDevfileBuildAction_def ExecuteDevfileRunAction_def
  ExecuteDevfileRunActionWithoutRestart_def ExecuteCommand_def

lemmas start_defs =
  pullAndStartContainer_def startComponent_def generateAndGetHostConfig_def getPortMap_def
  generateAndGetContainerConfig_def setPortLabels_def dockerVolumeMounts_of_def HostConfig_zero_def

lemmas example_defs =
  example_Client_def example_Pkg_def example_Adapter_def example_component_def
  example_volume_def example_state_def example_run_def

lemmas Itoa_defs = Itoa_def digits.simps digit_def LocalhostIP_def

section \<open>The project source volume\<close>

text \<open>
  C2. With more than one project source volume listed, the volume step of
  \<open>createComponent\<close> and of \<open>updateComponent\<close> should fail with a conflict error. The
  code wraps the nil \<open>err\<close> of the listing call, and \<open>Wrapf\<close> of nil is nil:
  \<open>createComponent\<close> returns nil and \<open>updateComponent\<close> returns \<open>(true, nil)\<close>. Nothing
  but the listing call is made.
\<close>

theorem multiple_source_volumes_return_nil:
  assumes "GetVolumesByLabel (Client a) (utils_GetProjectVolumeLabels P (ComponentName a)) (world s) =
             (projectVols, None)"
    and "length projectVols > 1"
  shows "createComponent P a s =
           (None, s\<lparr>trace := trace s @
              [Call_GetVolumesByLabel (utils_GetProjectVolumeLabels P (ComponentName a)) (projectVols, None)]\<rparr>) \<and>
         updateComponent P a s =
           ((True, None), s\<lparr>trace := trace s @
              [Call_GetVolumesByLabel (utils_GetProjectVolumeLabels P (ComponentName a)) (projectVols, None)]\<rparr>)"
  using assms
  by (cases projectVols)
    (simp_all add: createComponent_def createComponent_projectVolume_def updateComponent_def
      updateComponent_projectVolume_def Client_GetVolumesByLabel_def reading_def Wrapf_def Let_def)

theorem multiple_source_volumes_return_nil_witness:
  "createComponent example_Pkg (example_Adapter [example_component])
     (example_state [example_volume ''v1'', example_volume ''v2''] [] []) =
     (None,
      \<lparr>trace = [Call_GetVolumesByLabel [(''component'', ''app''), (''type'', ''projects'')]
                 ([example_volume ''v1'', example_volume ''v2''], None)],
       world = \<lparr>rt_volumes = [example_volume ''v1'', example_volume ''v2''],
                rt_containers = [], rt_urls = []\<rparr>\<rparr>) \<and>
   updateComponent example_Pkg (example_Adapter [example_component])
     (example_state [example_volume ''v1'', example_volume ''v2''] [] []) =
     ((True, None),
      \<lparr>trace = [Call_GetVolumesByLabel [(''component'', ''app''), (''type'', ''projects'')]
                 ([example_volume ''v1'', example_volume ''v2''], None)],
       world = \<lparr>rt_volumes = [example_volume ''v1'', example_volume ''v2''],
                rt_containers = [], rt_urls = []\<rparr>\<rparr>)"
  using multiple_source_volumes_return_nil [of "example_Adapter [example_component]" example_Pkg
      "example_state [example_volume ''v1'', example_volume ''v2''] [] []"
      "[example_volume ''v1'', example_volume ''v2'']"]
  by (simp add: example_defs)

section \<open>The storage adapter in the update path\<close>

text \<open>
  C3. Every failure of a call on the client or the storage adapter should be checked
  and abort the push. In \<open>updateComponent\<close> the error of \<open>stoAdapter.Create\<close> (line 114)
  is assigned and not tested: the loop over the components runs all the same, from the
  world the failed call left. The error comes back only through the bare \<open>return\<close> of
  line 199, unwrapped, when no later call fails.
\<close>

theorem storage_Create_error_does_not_abort_update:
  assumes "GetVolumesByLabel (Client a) (utils_GetProjectVolumeLabels P (ComponentName a)) (world s) =
             ([v], None)"
    and "storage_Create P (uniqueStorage a) (world s) = (Some e, w)"
    and "common_GetSupportedComponents P (Devfile_Data a) = compt # supportedComponents"
  shows "updateComponent P a s =
           updateComponent_loop P a (Volume_Name v) (Some e) (compt # supportedComponents) True
             \<lparr>trace = trace s @
                [Call_GetVolumesByLabel (utils_GetProjectVolumeLabels P (ComponentName a)) ([v], None),
                 Call_storage_Create (uniqueStorage a)],
              world = w\<rparr>"
  using assms
  by (simp add: updateComponent_def updateComponent_projectVolume_def Client_GetVolumesByLabel_def
      stoAdapter_Create_def reading_def acting_def Let_def)

theorem storage_Create_error_does_not_abort_update_witness:
  "updateComponent (example_Pkg\<lparr>storage_Create := (\<lambda>storages w. (Some (Errorf ''no space left''), w))\<rparr>)
     (example_Adapter [example_component]) (example_state [example_volume ''v1''] [] []) =
     ((False, Some (Errorf ''no space left'')),
      \<lparr>trace =
         [Call_GetVolumesByLabel [(''component'', ''app''), (''type'', ''projects'')]
            ([example_volume ''v1''], None),
          Call_storage_Create [],
          Call_GetContainersByComponentAndAlias ''app'' ''runtime'' ([], None),
          Call_PullImage ''node:12'',
          Call_StartContainer
            \<lparr>Config_Image = ''node:12'', Config_Entrypoint = [], Config_Cmd = [], Config_Env = [],
             Config_Labels = [(''component'', ''app''), (''alias'', ''runtime'')],
             Config_ExposedPorts = [''8080/tcp'']\<rparr>
            \<lparr>PortBindings = [], Mounts = [], Binds = [], Privileged = False, PublishAllPorts = False\<rparr>],
       world =
         \<lparr>rt_volumes = [example_volume ''v1''],
          rt_containers =
            [(\<lparr>ID = ''new'', Labels = [(''component'', ''app''), (''alias'', ''runtime'')],
               Container_Command = []\<rparr>,
              \<lparr>Config_Image = ''node:12'', Config_Entrypoint = [], Config_Cmd = [], Config_Env = [],
               Config_Labels = [(''component'', ''app''), (''alias'', ''runtime'')],
               Config_ExposedPorts = [''8080/tcp'']\<rparr>)],
          rt_urls = []\<rparr>\<rparr>)"
  using storage_Create_error_does_not_abort_update
    [of "example_Adapter [example_component]"
        "example_Pkg\<lparr>storage_Create := (\<lambda>storages w. (Some (Errorf ''no space left''), w))\<rparr>"
        "example_state [example_volume ''v1''] [] []" "example_volume ''v1''"
        "Errorf ''no space left''"
        "\<lparr>rt_volumes = [example_volume ''v1''], rt_containers = [], rt_urls = []\<rparr>"
        example_component "[]"]
  by (simp add: example_defs updateComponent_body_def start_defs call_defs Itoa_defs Let_def)

section \<open>The port mapper: URLs that are not exposed\<close>

lemma getPortMap_loop_filter:
  "getPortMap_loop NewPort endpoints show (filter (\<lambda>url. 0 < ExposedPort url) urlArr) portmap names =
   getPortMap_loop NewPort endpoints show urlArr portmap names"
  by (induction urlArr arbitrary: portmap names) (auto split: prod.splits)

text \<open>
  C9. A URL whose exposed port is not positive is passed over: the result of the port
  mapper (its bindings, its name labels and its error) is the one it gives when every
  such URL is deleted from the environment file, whatever the declared endpoints are.
\<close>

theorem nonpositive_exposed_port_is_skipped:
  "getPortMap P context endpoints show w =
   getPortMap
     (P\<lparr>envinfo_NewEnvSpecificInfo := (\<lambda>dir w.
          case envinfo_NewEnvSpecificInfo P dir w of
            (envInfo, err) \<Rightarrow>
              (envInfo\<lparr>GetURL := filter (\<lambda>url. 0 < ExposedPort url) (GetURL envInfo)\<rparr>, err))\<rparr>)
     context endpoints show w"
  by (simp add: getPortMap_def getPortMap_loop_filter split: prod.splits)

section \<open>The port mapper: bindings, stale URLs, no endpoints\<close>

lemma getPortMap_loop_error:
  "getPortMap_loop NewPort endpoints show urlArr portmap names = (portmap', names', Some e) \<Longrightarrow>
   portmap' = [] \<and> names' = []"
  by (induction urlArr arbitrary: portmap names) (auto split: prod.splits if_splits)

lemma getPortMap_loop_NewPort_ok:
  "getPortMap_loop NewPort endpoints show urlArr portmap names = (portmap', names', None) \<Longrightarrow>
   url \<in> set urlArr \<Longrightarrow> 0 < ExposedPort url \<Longrightarrow> IsPortPresent endpoints (Port url) \<Longrightarrow>
   snd (NewPort ''tcp'' (Itoa (Port url))) = None"
  by (induction urlArr arbitrary: portmap names) (auto split: prod.splits if_splits)

lemma getPortMap_loop_lookup:
  "getPortMap_loop NewPort endpoints show urlArr portmap names = (portmap', names', None) \<Longrightarrow>
   us = filter (\<lambda>u. 0 < ExposedPort u \<and> IsPortPresent endpoints (Port u) \<and>
                     fst (NewPort ''tcp'' (Itoa (Port u))) = port) urlArr \<Longrightarrow>
   map_of portmap' port =
     (if us = [] then map_of portmap port
      else Some [\<lparr>HostIP = LocalhostIP, HostPort = Itoa (ExposedPort (last us))\<rparr>]) \<and>
   map_of names' port = (if us = [] then map_of names port else Some (URL_Name (last us)))"
proof (induction urlArr arbitrary: portmap names us)
  case Nil
  then show ?case by simp
next
  case (Cons url urlArr)
  show ?case
  proof (cases "0 < ExposedPort url \<and> IsPortPresent endpoints (Port url)")
    case True
    obtain p err where np: "NewPort ''tcp'' (Itoa (Port url)) = (p, err)"
      by (cases "NewPort ''tcp'' (Itoa (Port url))")
    with True Cons.prems(1) have err: "err = None"
      by (auto split: if_splits)
    with True np Cons.prems(1) have rest:
      "getPortMap_loop NewPort endpoints show urlArr
         (AList.update p [\<lparr>HostIP = LocalhostIP, HostPort = Itoa (ExposedPort url)\<rparr>] portmap)
         (AList.update p (URL_Name url) names) = (portmap', names', None)"
      by simp
    note ih = Cons.IH [OF rest refl]
    show ?thesis
      using ih True np Cons.prems(2) by (auto simp: update_conv')
  next
    case False
    with Cons.prems(1) have rest:
      "getPortMap_loop NewPort endpoints show urlArr portmap names = (portmap', names', None)"
      by (auto split: if_splits)
    note ih = Cons.IH [OF rest refl]
    show ?thesis
      using ih False Cons.prems(2) by auto
  qed
qed

lemma getPortMap_loop_stale:
  "endpoints \<noteq> [] \<Longrightarrow> url \<in> set urlArr \<Longrightarrow> 0 < ExposedPort url \<Longrightarrow>
   \<not> IsPortPresent endpoints (Port url) \<Longrightarrow>
   \<exists>e. getPortMap_loop NewPort endpoints show urlArr portmap names = ([], [], Some e)"
  by (induction urlArr arbitrary: portmap names) (auto split: prod.splits)

lemma getPortMap_loop_no_endpoints:
  "getPortMap_loop NewPort [] show urlArr portmap names = (portmap, names, None)"
  by (induction urlArr arbitrary: portmap names) auto

lemma getPortMap_loaded:
  "(if context = [] then os_Getwd P w else (context, None)) = (dir, None) \<Longrightarrow>
   envinfo_NewEnvSpecificInfo P dir w = (envInfo, None) \<Longrightarrow>
   getPortMap P context endpoints show w =
     getPortMap_loop (nat_NewPort P) endpoints show (GetURL envInfo) [] []"
  by (simp add: getPortMap_def)

lemma getPortMap_loop_success:
  "\<forall>url \<in> set urlArr. 0 < ExposedPort url \<longrightarrow>
      IsPortPresent endpoints (Port url) \<and> snd (NewPort ''tcp'' (Itoa (Port url))) = None \<Longrightarrow>
   \<exists>portmap' names'. getPortMap_loop NewPort endpoints show urlArr portmap names = (portmap', names', None)"
  by (induction urlArr arbitrary: portmap names) (auto split: prod.splits)

lemma getPortMap_loop_rejected:
  "url \<in> set urlArr \<Longrightarrow> 0 < ExposedPort url \<Longrightarrow> IsPortPresent endpoints (Port url) \<Longrightarrow>
   snd (NewPort ''tcp'' (Itoa (Port url))) \<noteq> None \<Longrightarrow>
   \<exists>e. getPortMap_loop NewPort endpoints show urlArr portmap names = ([], [], Some e)"
proof (induction urlArr arbitrary: portmap names)
  case Nil
  then show ?case by simp
next
  case (Cons u urlArr)
  obtain p err where np: "NewPort ''tcp'' (Itoa (Port u)) = (p, err)"
    by (cases "NewPort ''tcp'' (Itoa (Port u))")
  show ?case
  proof (cases "u = url")
    case True
    with Cons.prems np show ?thesis
      by auto
  next
    case False
    with Cons.prems have "url \<in> set urlArr"
      by simp
    from Cons.IH [OF this Cons.prems(2-4)] np show ?thesis
      by auto
  qed
qed

text \<open>
  C4, as amended. Once the environment file is read, the result of the mapper is
  settled by the URLs with a positive exposed port. (1) When each of them has a
  declared container port that \<open>nat.NewPort\<close> accepts, the mapper succeeds, and each of
  them has its port key bound to exactly one binding, on 127.0.0.1, and labelled: the
  host port and the name are those of the last such URL with that port key (its own,
  unless a later URL exposes the same container port); no other key is bound or
  labelled. (2) When one of them has no declared endpoint, with endpoints declared, the
  mapper fails with an error and empty maps; (3) so it does when \<open>nat.NewPort\<close> rejects
  the port of one that has a declared endpoint. (4) With no endpoint declared the
  mapper succeeds with empty maps.
\<close>

theorem getPortMap_bindings:
  assumes "(if context = [] then os_Getwd P w else (context, None)) = (dir, None)"
    and "envinfo_NewEnvSpecificInfo P dir w = (envInfo, None)"
  shows "((\<forall>url \<in> set (GetURL envInfo). 0 < ExposedPort url \<longrightarrow>
             IsPortPresent endpoints (Port url) \<and>
             snd (nat_NewPort P ''tcp'' (Itoa (Port url))) = None) \<longrightarrow>
          (\<exists>portmap names.
             getPortMap P context endpoints show w = (portmap, names, None) \<and>
             (\<forall>port.
                map_of portmap port =
                  (case filter (\<lambda>u. 0 < ExposedPort u \<and>
                                  fst (nat_NewPort P ''tcp'' (Itoa (Port u))) = port) (GetURL envInfo) of
                     [] \<Rightarrow> None
                   | u # us \<Rightarrow>
                       Some [\<lparr>HostIP = LocalhostIP, HostPort = Itoa (ExposedPort (last (u # us)))\<rparr>]) \<and>
                map_of names port =
                  (case filter (\<lambda>u. 0 < ExposedPort u \<and>
                                  fst (nat_NewPort P ''tcp'' (Itoa (Port u))) = port) (GetURL envInfo) of
                     [] \<Rightarrow> None
                   | u # us \<Rightarrow> Some (URL_Name (last (u # us))))))) \<and>
         (\<forall>url. endpoints \<noteq> [] \<and> url \<in> set (GetURL envInfo) \<and> 0 < ExposedPort url \<and>
            \<not> IsPortPresent endpoints (Port url) \<longrightarrow>
            (\<exists>e. getPortMap P context endpoints show w = ([], [], Some e))) \<and>
         (\<forall>url. url \<in> set (GetURL envInfo) \<and> 0 < ExposedPort url \<and>
            IsPortPresent endpoints (Port url) \<and>
            snd (nat_NewPort P ''tcp'' (Itoa (Port url))) \<noteq> None \<longrightarrow>
            (\<exists>e. getPortMap P context endpoints show w = ([], [], Some e))) \<and>
         (endpoints = [] \<longrightarrow> getPortMap P context endpoints show w = ([], [], None))"
proof (intro conjI allI impI)
  let ?NP = "nat_NewPort P"
  let ?urls = "GetURL envInfo"
  assume all: "\<forall>url \<in> set ?urls. 0 < ExposedPort url \<longrightarrow>
             IsPortPresent endpoints (Port url) \<and> snd (?NP ''tcp'' (Itoa (Port url))) = None"
  from getPortMap_loop_success [of "GetURL envInfo" endpoints "nat_NewPort P" "show" "[]" "[]"] all obtain portmap names where
    loop: "getPortMap_loop ?NP endpoints show ?urls [] [] = (portmap, names, None)"
    by blast
  have same: "filter (\<lambda>u. 0 < ExposedPort u \<and> IsPortPresent endpoints (Port u) \<and>
                  fst (?NP ''tcp'' (Itoa (Port u))) = port) ?urls =
              filter (\<lambda>u. 0 < ExposedPort u \<and> fst (?NP ''tcp'' (Itoa (Port u))) = port) ?urls" for port
    using all by (intro filter_cong) auto
  have "map_of portmap port =
          (case filter (\<lambda>u. 0 < ExposedPort u \<and> fst (?NP ''tcp'' (Itoa (Port u))) = port) ?urls of
             [] \<Rightarrow> None
           | u # us \<Rightarrow> Some [\<lparr>HostIP = LocalhostIP, HostPort = Itoa (ExposedPort (last (u # us)))\<rparr>]) \<and>
        map_of names port =
          (case filter (\<lambda>u. 0 < ExposedPort u \<and> fst (?NP ''tcp'' (Itoa (Port u))) = port) ?urls of
             [] \<Rightarrow> None
           | u # us \<Rightarrow> Some (URL_Name (last (u # us))))" for port
    using getPortMap_loop_lookup [OF loop refl, of port] unfolding same
    by (cases "filter (\<lambda>u. 0 < ExposedPort u \<and> fst (?NP ''tcp'' (Itoa (Port u))) = port) ?urls") simp_all
  with loop assms
  show "\<exists>portmap names.
          getPortMap P context endpoints show w = (portmap, names, None) \<and>
          (\<forall>port.
             map_of portmap port =
               (case filter (\<lambda>u. 0 < ExposedPort u \<and> fst (?NP ''tcp'' (Itoa (Port u))) = port) ?urls of
                  [] \<Rightarrow> None
                | u # us \<Rightarrow> Some [\<lparr>HostIP = LocalhostIP, HostPort = Itoa (ExposedPort (last (u # us)))\<rparr>]) \<and>
             map_of names port =
               (case filter (\<lambda>u. 0 < ExposedPort u \<and> fst (?NP ''tcp'' (Itoa (Port u))) = port) ?urls of
                  [] \<Rightarrow> None
                | u # us \<Rightarrow> Some (URL_Name (last (u # us)))))"
    by (simp add: getPortMap_loaded)
next
  fix url
  assume "endpoints \<noteq> [] \<and> url \<in> set (GetURL envInfo) \<and> 0 < ExposedPort url \<and>
          \<not> IsPortPresent endpoints (Port url)"
  then show "\<exists>e. getPortMap P context endpoints show w = ([], [], Some e)"
    using assms getPortMap_loop_stale [of endpoints url "GetURL envInfo" "nat_NewPort P" "show" "[]" "[]"]
    by (simp add: getPortMap_loaded)
next
  fix url
  assume "url \<in> set (GetURL envInfo) \<and> 0 < ExposedPort url \<and> IsPortPresent endpoints (Port url) \<and>
          snd (nat_NewPort P ''tcp'' (Itoa (Port url))) \<noteq> None"
  then show "\<exists>e. getPortMap P context endpoints show w = ([], [], Some e)"
    using assms getPortMap_loop_rejected [of url "GetURL envInfo" endpoints "nat_NewPort P" "show" "[]" "[]"]
    by (simp add: getPortMap_loaded)
next
  assume "endpoints = []"
  then show "getPortMap P context endpoints show w = ([], [], None)"
    using assms by (simp add: getPortMap_loaded getPortMap_loop_no_endpoints)
qed

lemma example_getPortMap:
  "getPortMap example_Pkg ''/home/user/app'' [\<lparr>Endpoint_Name = ''web'', TargetPort = 8080\<rparr>] False
     (example_world example_urls) =
     ([(''8080/tcp'', [\<lparr>HostIP = ''127.0.0.1'', HostPort = ''20002''\<rparr>])], [(''8080/tcp'', ''admin'')], None)"
  by (simp add: getPortMap_def example_Pkg_def example_world_def example_urls_def Itoa_defs Let_def)

theorem getPortMap_bindings_witness:
  "(\<exists>portmap names.
      getPortMap example_Pkg ''/home/user/app'' [\<lparr>Endpoint_Name = ''web'', TargetPort = 8080\<rparr>] False
        (example_world [\<lparr>URL_Name = ''app'', Port = 8080, ExposedPort = 20001\<rparr>]) = (portmap, names, None) \<and>
      map_of portmap ''8080/tcp'' = Some [\<lparr>HostIP = ''127.0.0.1'', HostPort = ''20001''\<rparr>] \<and>
      map_of names ''8080/tcp'' = Some ''app'' \<and>
      map_of portmap ''9090/tcp'' = None) \<and>
   (\<exists>portmap names.
      getPortMap example_Pkg ''/home/user/app'' [\<lparr>Endpoint_Name = ''web'', TargetPort = 8080\<rparr>] False
        (example_world example_urls) = (portmap, names, None) \<and>
      map_of portmap ''8080/tcp'' = Some [\<lparr>HostIP = ''127.0.0.1'', HostPort = ''20002''\<rparr>] \<and>
      map_of names ''8080/tcp'' = Some ''admin'') \<and>
   (\<exists>e. getPortMap example_Pkg ''/home/user/app'' [\<lparr>Endpoint_Name = ''web'', TargetPort = 8080\<rparr>] False
      (example_world [\<lparr>URL_Name = ''old'', Port = 9090, ExposedPort = 20003\<rparr>]) = ([], [], Some e)) \<and>
   (\<exists>e. getPortMap
      (example_Pkg\<lparr>nat_NewPort := (\<lambda>proto port.
         if port = ''70000'' then ([], Some (Errorf ''value out of range''))
         else (port @ ''/'' @ proto, None))\<rparr>)
      ''/home/user/app'' [\<lparr>Endpoint_Name = ''web'', TargetPort = 70000\<rparr>] False
      (example_world [\<lparr>URL_Name = ''big'', Port = 70000, ExposedPort = 20004\<rparr>]) = ([], [], Some e)) \<and>
   getPortMap example_Pkg ''/home/user/app'' [] False (example_world example_urls) = ([], [], None)"
proof -
  let ?eps = "[\<lparr>Endpoint_Name = ''web'', TargetPort = 8080\<rparr>]"
  let ?app = "\<lparr>URL_Name = ''app'', Port = 8080, ExposedPort = 20001\<rparr>"
  let ?old = "\<lparr>URL_Name = ''old'', Port = 9090, ExposedPort = 20003\<rparr>"
  let ?big = "\<lparr>URL_Name = ''big'', Port = 70000, ExposedPort = 20004\<rparr>"
  let ?P = "example_Pkg\<lparr>nat_NewPort := (\<lambda>proto port.
         if port = ''70000'' then ([], Some (Errorf ''value out of range''))
         else (port @ ''/'' @ proto, None))\<rparr>"
  have load: "(if ''/home/user/app'' = [] then os_Getwd Q w else (''/home/user/app'', None)) =
                (''/home/user/app'', None)" for w and Q :: "(runtime, DevfileComponent list) Pkg"
    by simp
  have env: "envinfo_NewEnvSpecificInfo example_Pkg ''/home/user/app'' (example_world urls) =
               (\<lparr>GetURL = urls\<rparr>, None)" for urls
    by (simp add: example_Pkg_def example_world_def)
  have env': "envinfo_NewEnvSpecificInfo ?P ''/home/user/app'' (example_world urls) =
               (\<lparr>GetURL = urls\<rparr>, None)" for urls
    by (simp add: example_Pkg_def example_world_def)
  have np: "nat_NewPort example_Pkg ''tcp'' (Itoa 8080) = (''8080/tcp'', None)"
    by (simp add: example_Pkg_def Itoa_defs)
  note t1 = getPortMap_bindings [where endpoints = ?eps, OF load env [of "[?app]"], THEN conjunct1]
  note t2 = getPortMap_bindings [where endpoints = ?eps, OF load env [of example_urls], THEN conjunct1]
  note t3 = getPortMap_bindings [where endpoints = ?eps, OF load env [of "[?old]"],
      THEN conjunct2, THEN conjunct1]
  note t4 = getPortMap_bindings [where endpoints = "[\<lparr>Endpoint_Name = ''web'', TargetPort = 70000\<rparr>]"
     , OF load env' [of "[?big]"],
      THEN conjunct2, THEN conjunct2, THEN conjunct1]
  note t5 = getPortMap_bindings [where endpoints = "[]", OF load env [of example_urls],
      THEN conjunct2, THEN conjunct2, THEN conjunct2]
  have p1: "\<forall>url \<in> set (GetURL \<lparr>GetURL = [?app]\<rparr>). 0 < ExposedPort url \<longrightarrow>
      IsPortPresent ?eps (Port url) \<and> snd (nat_NewPort example_Pkg ''tcp'' (Itoa (Port url))) = None"
    by (simp add: np)
  have p2: "\<forall>url \<in> set (GetURL \<lparr>GetURL = example_urls\<rparr>). 0 < ExposedPort url \<longrightarrow>
      IsPortPresent ?eps (Port url) \<and> snd (nat_NewPort example_Pkg ''tcp'' (Itoa (Port url))) = None"
    by (simp add: np example_urls_def)
  from t1 [THEN mp, OF p1, of False] obtain portmap names where
    r1: "getPortMap example_Pkg ''/home/user/app'' ?eps False (example_world [?app]) = (portmap, names, None)"
    and l1: "\<And>port. map_of portmap port =
        (case filter (\<lambda>u. 0 < ExposedPort u \<and> fst (nat_NewPort example_Pkg ''tcp'' (Itoa (Port u))) = port)
                (GetURL \<lparr>GetURL = [?app]\<rparr>) of
           [] \<Rightarrow> None
         | u # us \<Rightarrow> Some [\<lparr>HostIP = LocalhostIP, HostPort = Itoa (ExposedPort (last (u # us)))\<rparr>])"
    and n1: "\<And>port. map_of names port =
        (case filter (\<lambda>u. 0 < ExposedPort u \<and> fst (nat_NewPort example_Pkg ''tcp'' (Itoa (Port u))) = port)
                (GetURL \<lparr>GetURL = [?app]\<rparr>) of
           [] \<Rightarrow> None
         | u # us \<Rightarrow> Some (URL_Name (last (u # us))))"
    by blast
  have first: "\<exists>portmap names.
      getPortMap example_Pkg ''/home/user/app'' ?eps False (example_world [?app]) = (portmap, names, None) \<and>
      map_of portmap ''8080/tcp'' = Some [\<lparr>HostIP = ''127.0.0.1'', HostPort = ''20001''\<rparr>] \<and>
      map_of names ''8080/tcp'' = Some ''app'' \<and>
      map_of portmap ''9090/tcp'' = None"
    using r1 l1 [of "''8080/tcp''"] n1 [of "''8080/tcp''"] l1 [of "''9090/tcp''"]
    by (simp add: example_Pkg_def Itoa_defs LocalhostIP_def)
  from t2 [THEN mp, OF p2, of False] obtain portmap2 names2 where
    r2: "getPortMap example_Pkg ''/home/user/app'' ?eps False (example_world example_urls) =
           (portmap2, names2, None)"
    and l2: "\<And>port. map_of portmap2 port =
        (case filter (\<lambda>u. 0 < ExposedPort u \<and> fst (nat_NewPort example_Pkg ''tcp'' (Itoa (Port u))) = port)
                (GetURL \<lparr>GetURL = example_urls\<rparr>) of
           [] \<Rightarrow> None
         | u # us \<Rightarrow> Some [\<lparr>HostIP = LocalhostIP, HostPort = Itoa (ExposedPort (last (u # us)))\<rparr>])"
    and n2: "\<And>port. map_of names2 port =
        (case filter (\<lambda>u. 0 < ExposedPort u \<and> fst (nat_NewPort example_Pkg ''tcp'' (Itoa (Port u))) = port)
                (GetURL \<lparr>GetURL = example_urls\<rparr>) of
           [] \<Rightarrow> None
         | u # us \<Rightarrow> Some (URL_Name (last (u # us))))"
    by blast
  have second: "\<exists>portmap names.
      getPortMap example_Pkg ''/home/user/app'' ?eps False (example_world example_urls) = (portmap, names, None) \<and>
      map_of portmap ''8080/tcp'' = Some [\<lparr>HostIP = ''127.0.0.1'', HostPort = ''20002''\<rparr>] \<and>
      map_of names ''8080/tcp'' = Some ''admin''"
    using r2 l2 [of "''8080/tcp''"] n2 [of "''8080/tcp''"]
    by (simp add: example_Pkg_def Itoa_defs LocalhostIP_def example_urls_def)
  from t3 have third:
    "\<exists>e. getPortMap example_Pkg ''/home/user/app'' ?eps False (example_world [?old]) = ([], [], Some e)"
    by simp
  from t4 have fourth:
    "\<exists>e. getPortMap ?P ''/home/user/app'' [\<lparr>Endpoint_Name = ''web'', TargetPort = 70000\<rparr>] False
       (example_world [?big]) = ([], [], Some e)"
    by (simp add: Itoa_defs)
  from t5 have fifth:
    "getPortMap example_Pkg ''/home/user/app'' [] False (example_world example_urls) = ([], [], None)"
    by simp
  from first second third fourth fifth show ?thesis
    by blast
qed

text \<open>
  C4 as stated fails in two ways. Where two URLs expose the same container port: the
  URL \<open>app\<close> (8080 to 20001) has a positive exposed port and a declared container port,
  the mapper succeeds, and the one binding of 8080 is to 20002, the host port of the
  later URL. Where \<open>nat.NewPort\<close> rejects the port (it parses it on 16 bits, so 70000
  is out of range; lines 323 to 326): the URL \<open>big\<close> has a positive exposed port and
  the declared container port 70000, and the mapper fails with no binding at all.
\<close>

theorem getPortMap_binding_replaced:
  "getPortMap example_Pkg ''/home/user/app'' [\<lparr>Endpoint_Name = ''web'', TargetPort = 8080\<rparr>] False
     (example_world example_urls) =
     ([(''8080/tcp'', [\<lparr>HostIP = ''127.0.0.1'', HostPort = ''20002''\<rparr>])], [(''8080/tcp'', ''admin'')], None) \<and>
   \<lparr>URL_Name = ''app'', Port = 8080, ExposedPort = 20001\<rparr> \<in> set example_urls \<and>
   IsPortPresent [\<lparr>Endpoint_Name = ''web'', TargetPort = 8080\<rparr>] 8080 \<and>
   nat_NewPort example_Pkg ''tcp'' (Itoa 8080) = (''8080/tcp'', None) \<and>
   map_of (fst (getPortMap example_Pkg ''/home/user/app''
             [\<lparr>Endpoint_Name = ''web'', TargetPort = 8080\<rparr>] False (example_world example_urls)))
     ''8080/tcp'' \<noteq> Some [\<lparr>HostIP = LocalhostIP, HostPort = Itoa 20001\<rparr>] \<and>
   IsPortPresent [\<lparr>Endpoint_Name = ''web'', TargetPort = 70000\<rparr>] 70000 \<and>
   getPortMap
     (example_Pkg\<lparr>nat_NewPort := (\<lambda>proto port.
        if port = ''70000'' then ([], Some (Errorf ''value out of range''))
        else (port @ ''/'' @ proto, None))\<rparr>)
     ''/home/user/app'' [\<lparr>Endpoint_Name = ''web'', TargetPort = 70000\<rparr>] False
     (example_world [\<lparr>URL_Name = ''big'', Port = 70000, ExposedPort = 20004\<rparr>]) =
     ([], [], Some (Errorf ''value out of range''))"
proof -
  note e = example_getPortMap
  have a: "\<lparr>URL_Name = ''app'', Port = 8080, ExposedPort = 20001\<rparr> \<in> set example_urls"
    by (simp add: example_urls_def)
  have b: "IsPortPresent [\<lparr>Endpoint_Name = ''web'', TargetPort = 8080\<rparr>] 8080"
    by simp
  have c: "nat_NewPort example_Pkg ''tcp'' (Itoa 8080) = (''8080/tcp'', None)"
    by (simp add: example_Pkg_def Itoa_defs)
  have d: "map_of (fst (getPortMap example_Pkg ''/home/user/app''
             [\<lparr>Endpoint_Name = ''web'', TargetPort = 8080\<rparr>] False (example_world example_urls)))
     ''8080/tcp'' \<noteq> Some [\<lparr>HostIP = LocalhostIP, HostPort = Itoa 20001\<rparr>]"
    by (simp add: e Itoa_defs)
  have f: "IsPortPresent [\<lparr>Endpoint_Name = ''web'', TargetPort = 70000\<rparr>] 70000"
    by simp
  have g: "getPortMap
     (example_Pkg\<lparr>nat_NewPort := (\<lambda>proto port.
        if port = ''70000'' then ([], Some (Errorf ''value out of range''))
        else (port @ ''/'' @ proto, None))\<rparr>)
     ''/home/user/app'' [\<lparr>Endpoint_Name = ''web'', TargetPort = 70000\<rparr>] False
     (example_world [\<lparr>URL_Name = ''big'', Port = 70000, ExposedPort = 20004\<rparr>]) =
     ([], [], Some (Errorf ''value out of range''))"
    by (simp add: getPortMap_def example_Pkg_def example_world_def Itoa_defs Let_def)
  from e a b c d f g show ?thesis
    by blast
qed

section \<open>The project source volume: resolving twice\<close>

text \<open>
  C7. Volume resolution is idempotent. (1) When exactly one volume carries the
  component's project source labels, the create path and the update path both return
  its name after the listing call alone: no create call, the world unchanged. (2) From
  no volume, with a runtime that lists the created volume afterwards (no other change
  to its volumes), the create path issues one create call and returns the generated
  name, and a second resolution, by the create path or by the update path, returns the
  same name after a listing call alone.
\<close>

theorem project_volume_resolution_idempotent:
  "(GetVolumesByLabel (Client a) (utils_GetProjectVolumeLabels P (ComponentName a)) (world s) = ([v], None) \<longrightarrow>
      createComponent_projectVolume P a s =
        (Inr (Volume_Name v),
         s\<lparr>trace := trace s @
            [Call_GetVolumesByLabel (utils_GetProjectVolumeLabels P (ComponentName a)) ([v], None)]\<rparr>) \<and>
      updateComponent_projectVolume P a componentExists s =
        (Inr (Volume_Name v),
         s\<lparr>trace := trace s @
            [Call_GetVolumesByLabel (utils_GetProjectVolumeLabels P (ComponentName a)) ([v], None)]\<rparr>)) \<and>
   (GetVolumesByLabel (Client a) (utils_GetProjectVolumeLabels P (ComponentName a)) (world s) = ([], None) \<and>
    storage_GenerateVolName P projectSourceVolumeName (ComponentName a) (world s) = (name, None) \<and>
    CreateVolume (Client a) name (utils_GetProjectVolumeLabels P (ComponentName a)) (world s) =
      ((created, None), w) \<and>
    GetVolumesByLabel (Client a) (utils_GetProjectVolumeLabels P (ComponentName a)) w = ([v'], None) \<and>
    Volume_Name v' = name \<longrightarrow>
      createComponent_projectVolume P a s =
        (Inr name,
         \<lparr>trace = trace s @
            [Call_GetVolumesByLabel (utils_GetProjectVolumeLabels P (ComponentName a)) ([], None),
             Call_CreateVolume name (utils_GetProjectVolumeLabels P (ComponentName a))],
          world = w\<rparr>) \<and>
      createComponent_projectVolume P a
        \<lparr>trace = trace s @
            [Call_GetVolumesByLabel (utils_GetProjectVolumeLabels P (ComponentName a)) ([], None),
             Call_CreateVolume name (utils_GetProjectVolumeLabels P (ComponentName a))],
          world = w\<rparr> =
        (Inr name,
         \<lparr>trace = trace s @
            [Call_GetVolumesByLabel (utils_GetProjectVolumeLabels P (ComponentName a)) ([], None),
             Call_CreateVolume name (utils_GetProjectVolumeLabels P (ComponentName a)),
             Call_GetVolumesByLabel (utils_GetProjectVolumeLabels P (ComponentName a)) ([v'], None)],
          world = w\<rparr>) \<and>
      updateComponent_projectVolume P a componentExists
        \<lparr>trace = trace s @
            [Call_GetVolumesByLabel (utils_GetProjectVolumeLabels P (ComponentName a)) ([], None),
             Call_CreateVolume name (utils_GetProjectVolumeLabels P (ComponentName a))],
          world = w\<rparr> =
        (Inr name,
         \<lparr>trace = trace s @
            [Call_GetVolumesByLabel (utils_GetProjectVolumeLabels P (ComponentName a)) ([], None),
             Call_CreateVolume name (utils_GetProjectVolumeLabels P (ComponentName a)),
             Call_GetVolumesByLabel (utils_GetProjectVolumeLabels P (ComponentName a)) ([v'], None)],
          world = w\<rparr>))"
  by (simp add: createComponent_projectVolume_def updateComponent_projectVolume_def
      Client_GetVolumesByLabel_def Client_CreateVolume_def reading_def acting_def Let_def)

theorem project_volume_resolution_idempotent_witness:
  "createComponent_projectVolume example_Pkg (example_Adapter [example_component])
     (example_state [example_volume ''v1''] [] []) =
     (Inr ''v1'',
      \<lparr>trace = [Call_GetVolumesByLabel [(''component'', ''app''), (''type'', ''projects'')]
                 ([example_volume ''v1''], None)],
       world = \<lparr>rt_volumes = [example_volume ''v1''], rt_containers = [], rt_urls = []\<rparr>\<rparr>) \<and>
   createComponent_projectVolume example_Pkg (example_Adapter [example_component])
     (example_state [] [] []) =
     (Inr ''odo-project-source-app-abcd'',
      \<lparr>trace = [Call_GetVolumesByLabel [(''component'', ''app''), (''type'', ''projects'')] ([], None),
                Call_CreateVolume ''odo-project-source-app-abcd''
                  [(''component'', ''app''), (''type'', ''projects'')]],
       world = \<lparr>rt_volumes = [example_volume ''odo-project-source-app-abcd''],
                rt_containers = [], rt_urls = []\<rparr>\<rparr>) \<and>
   updateComponent_projectVolume example_Pkg (example_Adapter [example_component]) True
     \<lparr>trace = [Call_GetVolumesByLabel [(''component'', ''app''), (''type'', ''projects'')] ([], None),
               Call_CreateVolume ''odo-project-source-app-abcd''
                 [(''component'', ''app''), (''type'', ''projects'')]],
      world = \<lparr>rt_volumes = [example_volume ''odo-project-source-app-abcd''],
               rt_containers = [], rt_urls = []\<rparr>\<rparr> =
     (Inr ''odo-project-source-app-abcd'',
      \<lparr>trace = [Call_GetVolumesByLabel [(''component'', ''app''), (''type'', ''projects'')] ([], None),
                Call_CreateVolume ''odo-project-source-app-abcd''
                  [(''component'', ''app''), (''type'', ''projects'')],
                Call_GetVolumesByLabel [(''component'', ''app''), (''type'', ''projects'')]
                  ([example_volume ''odo-project-source-app-abcd''], None)],
       world = \<lparr>rt_volumes = [example_volume ''odo-project-source-app-abcd''],
                rt_containers = [], rt_urls = []\<rparr>\<rparr>)"
  using project_volume_resolution_idempotent
      [of "example_Adapter [example_component]" example_Pkg
          "example_state [example_volume ''v1''] [] []" "example_volume ''v1''" True]
    project_volume_resolution_idempotent
      [of "example_Adapter [example_component]" example_Pkg "example_state [] [] []" _ True
          "''odo-project-source-app-abcd''" "example_volume ''odo-project-source-app-abcd''"
          "\<lparr>rt_volumes = [example_volume ''odo-project-source-app-abcd''],
            rt_containers = [], rt_urls = []\<rparr>"
          "example_volume ''odo-project-source-app-abcd''"]
  by (simp add: example_defs projectSourceVolumeName_def)

section \<open>The command pipeline\<close>

lemma InitRunContainerSupervisord_loop_trace:
  "InitRunContainerSupervisord_loop P component containers err s = (err', s') \<Longrightarrow>
   \<exists>evs. trace s' = trace s @ evs \<and>
     (\<forall>ev \<in> set evs. \<exists>compInfo command sh. ev = Call_ExecuteCommand compInfo command sh)"
proof (induction containers arbitrary: err s)
  case Nil
  then show ?case by simp
next
  case (Cons container containers)
  show ?case
  proof (cases "(case map_of (Labels container) ''alias'' of None \<Rightarrow> [] | Some v \<Rightarrow> v) = component \<and>
         \<not> Contains (Container_Command container) (common_SupervisordBinaryPath P)")
    case True
    let ?command = "[common_SupervisordBinaryPath P, ''-c'', common_SupervisordConfFile P, ''-d'']"
    let ?compInfo = "\<lparr>ContainerName = ID container\<rparr>"
    obtain e1 s1 where ex: "ExecuteCommand P ?compInfo ?command True s = (e1, s1)"
      by (cases "ExecuteCommand P ?compInfo ?command True s")
    then have t1: "trace s1 = trace s @ [Call_ExecuteCommand ?compInfo ?command True]"
      by (auto simp: ExecuteCommand_def acting_def split: prod.splits)
    from True ex Cons.prems have "InitRunContainerSupervisord_loop P component containers e1 s1 = (err', s')"
      by (simp add: Let_def)
    from Cons.IH [OF this] obtain evs where
      "trace s' = trace s1 @ evs"
      "\<forall>ev \<in> set evs. \<exists>compInfo command sh. ev = Call_ExecuteCommand compInfo command sh"
      by blast
    with t1 show ?thesis
      by (intro exI [of _ "Call_ExecuteCommand ?compInfo ?command True # evs"]) auto
  next
    case False
    with Cons.prems have "InitRunContainerSupervisord_loop P component containers err s = (err', s')"
      by auto
    from Cons.IH [OF this] show ?thesis .
  qed
qed

text \<open>
  C5. With no command at all the pipeline fails at once, nothing called. With Init,
  Build and Run declared and \<open>componentExists = false\<close> it is the sequence Init, Build,
  supervisor initialisation, Run (the full-restart action), each stage started in the
  state the one before left and only when that one returned no error; a stage's error is
  the pipeline's. With \<open>componentExists = true\<close> the pipeline is Build, then Run, and the
  Init entry of the map has no effect on it.
\<close>

theorem execDevfile_order:
  assumes "map_of commandsMap InitCommandGroupType = Some init"
    and "map_of commandsMap BuildCommandGroupType = Some build"
    and "map_of commandsMap RunCommandGroupType = Some run"
  shows "execDevfile P a [] componentExists show containers s =
           (Some (Errorf ''error executing devfile commands - there should be at least 1 command''), s) \<and>
         execDevfile P a commandsMap False show containers s =
           (case ExecuteDevfileBuildAction P (Exec init) (Id (Exec init))
                   \<lparr>ContainerName = utils_GetContainerIDForAlias P containers (Component (Exec init))\<rparr>
                   show s of
              (err, s1) \<Rightarrow>
                if err \<noteq> None then (err, s1)
                else
                  (case ExecuteDevfileBuildAction P (Exec build) (Id (Exec build))
                          \<lparr>ContainerName = utils_GetContainerIDForAlias P containers (Component (Exec build))\<rparr>
                          show s1 of
                     (err, s2) \<Rightarrow>
                       if err \<noteq> None then (err, s2)
                       else
                         (case InitRunContainerSupervisord P a (Component (Exec run)) containers s2 of
                            (err, s3) \<Rightarrow>
                              if err \<noteq> None then (err, s3)
                              else ExecuteDevfileRunAction P (Exec run) (Id (Exec run))
                                     \<lparr>ContainerName = utils_GetContainerIDForAlias P containers
                                                        (Component (Exec run))\<rparr>
                                     show s3))) \<and>
         execDevfile P a commandsMap True show containers s =
           (case ExecuteDevfileBuildAction P (Exec build) (Id (Exec build))
                   \<lparr>ContainerName = utils_GetContainerIDForAlias P containers (Component (Exec build))\<rparr>
                   show s of
              (err, s2) \<Rightarrow>
                if err \<noteq> None then (err, s2)
                else if common_IsRestartRequired P run
                then ExecuteDevfileRunAction P (Exec run) (Id (Exec run))
                       \<lparr>ContainerName = utils_GetContainerIDForAlias P containers (Component (Exec run))\<rparr>
                       show s2
                else ExecuteDevfileRunActionWithoutRestart P (Exec run) (Id (Exec run))
                       \<lparr>ContainerName = utils_GetContainerIDForAlias P containers (Component (Exec run))\<rparr>
                       show s2) \<and>
         execDevfile P a commandsMap True show containers s =
           execDevfile P a (AList.delete InitCommandGroupType commandsMap) True show containers s"
proof -
  from assms have ne: "commandsMap \<noteq> []"
    by auto
  have 1: "execDevfile P a [] componentExists show containers s =
           (Some (Errorf ''error executing devfile commands - there should be at least 1 command''), s)"
    by (simp add: execDevfile_def)
  have 2: "execDevfile P a commandsMap False show containers s =
           (case ExecuteDevfileBuildAction P (Exec init) (Id (Exec init))
                   \<lparr>ContainerName = utils_GetContainerIDForAlias P containers (Component (Exec init))\<rparr>
                   show s of
              (err, s1) \<Rightarrow>
                if err \<noteq> None then (err, s1)
                else
                  (case ExecuteDevfileBuildAction P (Exec build) (Id (Exec build))
                          \<lparr>ContainerName = utils_GetContainerIDForAlias P containers (Component (Exec build))\<rparr>
                          show s1 of
                     (err, s2) \<Rightarrow>
                       if err \<noteq> None then (err, s2)
                       else
                         (case InitRunContainerSupervisord P a (Component (Exec run)) containers s2 of
                            (err, s3) \<Rightarrow>
                              if err \<noteq> None then (err, s3)
                              else ExecuteDevfileRunAction P (Exec run) (Id (Exec run))
                                     \<lparr>ContainerName = utils_GetContainerIDForAlias P containers
                                                        (Component (Exec run))\<rparr>
                                     show s3)))"
    using assms ne by (simp add: execDevfile_def Let_def split: prod.splits)
  have 3: "execDevfile P a cm True show containers s =
           (case ExecuteDevfileBuildAction P (Exec build) (Id (Exec build))
                   \<lparr>ContainerName = utils_GetContainerIDForAlias P containers (Component (Exec build))\<rparr>
                   show s of
              (err, s2) \<Rightarrow>
                if err \<noteq> None then (err, s2)
                else if common_IsRestartRequired P run
                then ExecuteDevfileRunAction P (Exec run) (Id (Exec run))
                       \<lparr>ContainerName = utils_GetContainerIDForAlias P containers (Component (Exec run))\<rparr>
                       show s2
                else ExecuteDevfileRunActionWithoutRestart P (Exec run) (Id (Exec run))
                       \<lparr>ContainerName = utils_GetContainerIDForAlias P containers (Component (Exec run))\<rparr>
                       show s2)"
    if "map_of cm BuildCommandGroupType = Some build" and "map_of cm RunCommandGroupType = Some run" for cm
  proof -
    from that have "cm \<noteq> []"
      by auto
    with that show ?thesis
      by (simp add: execDevfile_def Let_def split: prod.splits)
  qed
  note three = 3 [of commandsMap, OF assms(2) assms(3)]
  have 4: "execDevfile P a commandsMap True show containers s =
           execDevfile P a (AList.delete InitCommandGroupType commandsMap) True show containers s"
    using assms by (simp add: 3 delete_conv')
  from 1 2 three 4 show ?thesis
    by (intro conjI)
qed

lemma acting_trace: "acting ev f s = (r, s') \<Longrightarrow> trace s' = trace s @ [ev]"
  by (auto simp: acting_def split: prod.splits)

lemma reading_trace: "reading ev f s = (r, s') \<Longrightarrow> trace s' = trace s @ [ev r] \<and> world s' = world s"
  by (auto simp: reading_def Let_def)

text \<open>
  C6. With a Run command declared the pipeline is settled by \<open>componentExists\<close> and
  the Run command's restart flag. When \<open>componentExists\<close> is true and the Run command
  needs no restart, the pipeline is the Build action, if one is declared, and then, iff
  that one returned no error, the run action without restart, started in the state Build
  left, its result the pipeline's; these are all the calls made: no supervisor
  initialisation and no call on the engine. In every other case the pipeline is the Init
  action (a new component only, if declared), the Build action (if declared), the
  supervisor initialisation (a new component only) and then the full-restart run action,
  each started in the state the one before left and iff that one returned no error, a
  stage's error being the pipeline's; no run action without restart is called, and a
  pipeline that returns no error has made the full-restart run action its last call.
\<close>

theorem execDevfile_run_mode:
  assumes "map_of commandsMap RunCommandGroupType = Some run"
  shows "(componentExists \<and> \<not> common_IsRestartRequired P run \<longrightarrow>
            execDevfile P a commandsMap componentExists show containers s =
              (case (case map_of commandsMap BuildCommandGroupType of
                       Some build \<Rightarrow>
                         ExecuteDevfileBuildAction P (Exec build) (Id (Exec build))
                           \<lparr>ContainerName = utils_GetContainerIDForAlias P containers (Component (Exec build))\<rparr>
                           show s
                     | None \<Rightarrow> (None, s)) of
                 (err, s2) \<Rightarrow>
                   if err \<noteq> None then (err, s2)
                   else ExecuteDevfileRunActionWithoutRestart P (Exec run) (Id (Exec run))
                          \<lparr>ContainerName = utils_GetContainerIDForAlias P containers (Component (Exec run))\<rparr>
                          show s2) \<and>
            trace (snd (execDevfile P a commandsMap componentExists show containers s)) =
              trace s @
              (case map_of commandsMap BuildCommandGroupType of
                 Some build \<Rightarrow>
                   [Call_ExecuteDevfileBuildAction (Exec build) (Id (Exec build))
                      \<lparr>ContainerName = utils_GetContainerIDForAlias P containers (Component (Exec build))\<rparr>
                      show]
               | None \<Rightarrow> []) @
              (if fst (case map_of commandsMap BuildCommandGroupType of
                         Some build \<Rightarrow>
                           ExecuteDevfileBuildAction P (Exec build) (Id (Exec build))
                             \<lparr>ContainerName = utils_GetContainerIDForAlias P containers (Component (Exec build))\<rparr>
                             show s
                       | None \<Rightarrow> (None, s)) = None
               then [Call_ExecuteDevfileRunActionWithoutRestart (Exec run) (Id (Exec run))
                       \<lparr>ContainerName = utils_GetContainerIDForAlias P containers (Component (Exec run))\<rparr>
                       show]
               else [])) \<and>
         (\<not> (componentExists \<and> \<not> common_IsRestartRequired P run) \<longrightarrow>
            execDevfile P a commandsMap componentExists show containers s =
              (case (if \<not> componentExists then
                       (case map_of commandsMap InitCommandGroupType of
                          Some init \<Rightarrow>
                            ExecuteDevfileBuildAction P (Exec init) (Id (Exec init))
                              \<lparr>ContainerName = utils_GetContainerIDForAlias P containers (Component (Exec init))\<rparr>
                              show s
                        | None \<Rightarrow> (None, s))
                     else (None, s)) of
                 (err, s1) \<Rightarrow>
                   if err \<noteq> None then (err, s1)
                   else
                     (case (case map_of commandsMap BuildCommandGroupType of
                              Some build \<Rightarrow>
                                ExecuteDevfileBuildAction P (Exec build) (Id (Exec build))
                                  \<lparr>ContainerName = utils_GetContainerIDForAlias P containers
                                                     (Component (Exec build))\<rparr>
                                  show s1
                            | None \<Rightarrow> (None, s1)) of
                        (err, s2) \<Rightarrow>
                          if err \<noteq> None then (err, s2)
                          else
                            (case (if \<not> componentExists
                                   then InitRunContainerSupervisord P a (Component (Exec run)) containers s2
                                   else (None, s2)) of
                               (err, s3) \<Rightarrow>
                                 if err \<noteq> None then (err, s3)
                                 else ExecuteDevfileRunAction P (Exec run) (Id (Exec run))
                                        \<lparr>ContainerName = utils_GetContainerIDForAlias P containers
                                                           (Component (Exec run))\<rparr>
                                        show s3))) \<and>
            (\<forall>exec name compInfo sh.
               Call_ExecuteDevfileRunActionWithoutRestart exec name compInfo sh \<notin>
                 set (drop (length (trace s))
                        (trace (snd (execDevfile P a commandsMap componentExists show containers s))))) \<and>
            (fst (execDevfile P a commandsMap componentExists show containers s) = None \<longrightarrow>
               (\<exists>pre. trace (snd (execDevfile P a commandsMap componentExists show containers s)) =
                        trace s @ pre @
                        [Call_ExecuteDevfileRunAction (Exec run) (Id (Exec run))
                           \<lparr>ContainerName = utils_GetContainerIDForAlias P containers (Component (Exec run))\<rparr>
                           show])))"
proof -
  let ?info = "\<lambda>c. \<lparr>ContainerName = utils_GetContainerIDForAlias P containers (Component (Exec c))\<rparr>"
  let ?B = "\<lambda>c. Call_ExecuteDevfileBuildAction (Exec c) (Id (Exec c)) (?info c) show"
  let ?NR = "Call_ExecuteDevfileRunActionWithoutRestart (Exec run) (Id (Exec run)) (?info run) show"
  let ?RA = "Call_ExecuteDevfileRunAction (Exec run) (Id (Exec run)) (?info run) show"
  let ?noNR = "\<lambda>evs. \<forall>exec name compInfo sh.
                 Call_ExecuteDevfileRunActionWithoutRestart exec name compInfo sh \<notin> set evs"
  let ?build = "\<lambda>s. case map_of commandsMap BuildCommandGroupType of
                       Some build \<Rightarrow> ExecuteDevfileBuildAction P (Exec build) (Id (Exec build)) (?info build) show s
                     | None \<Rightarrow> (None, s)"
  let ?init = "if \<not> componentExists then
                 (case map_of commandsMap InitCommandGroupType of
                    Some init \<Rightarrow> ExecuteDevfileBuildAction P (Exec init) (Id (Exec init)) (?info init) show s
                  | None \<Rightarrow> (None, s))
               else (None, s)"
  let ?sup = "\<lambda>s. if \<not> componentExists
                   then InitRunContainerSupervisord P a (Component (Exec run)) containers s
                   else (None, s)"
  from assms have ne: "commandsMap \<noteq> []"
    by auto
  have staged: "execDevfile P a commandsMap componentExists show containers s =
      (case ?init of
         (err, s1) \<Rightarrow>
           if err \<noteq> None then (err, s1)
           else
             (case ?build s1 of
                (err, s2) \<Rightarrow>
                  if err \<noteq> None then (err, s2)
                  else
                    (case ?sup s2 of
                       (err, s3) \<Rightarrow>
                         if err \<noteq> None then (err, s3)
                         else if componentExists \<and> \<not> common_IsRestartRequired P run
                         then ExecuteDevfileRunActionWithoutRestart P (Exec run) (Id (Exec run)) (?info run) show s3
                         else ExecuteDevfileRunAction P (Exec run) (Id (Exec run)) (?info run) show s3)))"
    using ne assms
    by (cases "map_of commandsMap InitCommandGroupType"; cases "map_of commandsMap BuildCommandGroupType";
        cases componentExists)
      (simp_all add: execDevfile_def Let_def split: prod.splits)
  obtain e1 s1 where i: "?init = (e1, s1)"
    by (cases ?init)
  have t1: "\<exists>evs1. trace s1 = trace s @ evs1 \<and> ?noNR evs1"
    using i
    by (auto simp: ExecuteDevfileBuildAction_def split: if_splits option.splits dest!: acting_trace)
  obtain e2 s2 where b: "?build s1 = (e2, s2)"
    by (cases "?build s1")
  have t2: "\<exists>evs2. trace s2 = trace s1 @ evs2 \<and> ?noNR evs2"
    using b
    by (auto simp: ExecuteDevfileBuildAction_def split: option.splits dest!: acting_trace)
  obtain e3 s3 where u: "?sup s2 = (e3, s3)"
    by (cases "?sup s2")
  have t3: "\<exists>evs3. trace s3 = trace s2 @ evs3 \<and> ?noNR evs3"
    using u
    by (auto simp: InitRunContainerSupervisord_def split: if_splits
        dest!: InitRunContainerSupervisord_loop_trace)
  from t1 obtain evs1 where evs1: "trace s1 = trace s @ evs1" "?noNR evs1"
    by blast
  from t2 obtain evs2 where evs2: "trace s2 = trace s1 @ evs2" "?noNR evs2"
    by blast
  from t3 obtain evs3 where evs3: "trace s3 = trace s2 @ evs3" "?noNR evs3"
    by blast
  have unfolded: "execDevfile P a commandsMap componentExists show containers s =
    (if e1 \<noteq> None then (e1, s1)
     else if e2 \<noteq> None then (e2, s2)
     else if e3 \<noteq> None then (e3, s3)
     else if componentExists \<and> \<not> common_IsRestartRequired P run
     then ExecuteDevfileRunActionWithoutRestart P (Exec run) (Id (Exec run)) (?info run) show s3
     else ExecuteDevfileRunAction P (Exec run) (Id (Exec run)) (?info run) show s3)"
    unfolding staged i using b u by simp
  show ?thesis
  proof (intro conjI impI)
    assume nr: "componentExists \<and> \<not> common_IsRestartRequired P run"
    then show "execDevfile P a commandsMap componentExists show containers s =
        (case ?build s of
           (err, s2) \<Rightarrow>
             if err \<noteq> None then (err, s2)
             else ExecuteDevfileRunActionWithoutRestart P (Exec run) (Id (Exec run)) (?info run) show s2)"
      unfolding staged by (simp split: prod.splits)
    from nr i have s1: "s1 = s" "e1 = None"
      by auto
    from nr u have s3: "s3 = s2" "e3 = None"
      by auto
    have tb: "trace s2 = trace s @
        (case map_of commandsMap BuildCommandGroupType of Some build \<Rightarrow> [?B build] | None \<Rightarrow> [])"
      using b unfolding s1
      by (auto simp: ExecuteDevfileBuildAction_def split: option.splits dest!: acting_trace)
    obtain e4 s4 where r: "ExecuteDevfileRunActionWithoutRestart P (Exec run) (Id (Exec run)) (?info run) show s2 = (e4, s4)"
      by (cases "ExecuteDevfileRunActionWithoutRestart P (Exec run) (Id (Exec run)) (?info run) show s2")
    then have t4: "trace s4 = trace s2 @ [?NR]"
      by (auto simp: ExecuteDevfileRunActionWithoutRestart_def dest!: acting_trace)
    from b have fb: "fst (?build s) = e2"
      unfolding s1 by simp
    show "trace (snd (execDevfile P a commandsMap componentExists show containers s)) =
        trace s @
        (case map_of commandsMap BuildCommandGroupType of Some build \<Rightarrow> [?B build] | None \<Rightarrow> []) @
        (if fst (?build s) = None then [?NR] else [])"
      unfolding unfolded fb using nr s1 s3 tb t4 r by simp
  next
    assume other: "\<not> (componentExists \<and> \<not> common_IsRestartRequired P run)"
    then show "execDevfile P a commandsMap componentExists show containers s =
        (case ?init of
           (err, s1) \<Rightarrow>
             if err \<noteq> None then (err, s1)
             else
               (case ?build s1 of
                  (err, s2) \<Rightarrow>
                    if err \<noteq> None then (err, s2)
                    else
                      (case ?sup s2 of
                         (err, s3) \<Rightarrow>
                           if err \<noteq> None then (err, s3)
                           else ExecuteDevfileRunAction P (Exec run) (Id (Exec run)) (?info run) show s3)))"
      unfolding staged by (simp split: prod.splits)
    obtain e4 s4 where r: "ExecuteDevfileRunAction P (Exec run) (Id (Exec run)) (?info run) show s3 = (e4, s4)"
      by (cases "ExecuteDevfileRunAction P (Exec run) (Id (Exec run)) (?info run) show s3")
    then have t4: "trace s4 = trace s3 @ [?RA]"
      by (auto simp: ExecuteDevfileRunAction_def dest!: acting_trace)
    have res: "execDevfile P a commandsMap componentExists show containers s =
        (if e1 \<noteq> None then (e1, s1)
         else if e2 \<noteq> None then (e2, s2)
         else if e3 \<noteq> None then (e3, s3)
         else (e4, s4))"
      unfolding unfolded using other r by auto
    show "\<forall>exec name compInfo sh.
        Call_ExecuteDevfileRunActionWithoutRestart exec name compInfo sh \<notin>
          set (drop (length (trace s))
                 (trace (snd (execDevfile P a commandsMap componentExists show containers s))))"
      unfolding res using evs1 evs2 evs3 t4 by simp
    assume "fst (execDevfile P a commandsMap componentExists show containers s) = None"
    then show "\<exists>pre. trace (snd (execDevfile P a commandsMap componentExists show containers s)) =
                 trace s @ pre @ [?RA]"
      unfolding res using evs1(1) evs2(1) evs3(1) t4 by (auto split: if_splits)
  qed
qed

lemmas command_defs =
  example_init_def example_build_def example_run_norestart_def example_commands_def
  example_containers_def example_supervisord_def

theorem execDevfile_order_witness:
  "execDevfile example_Pkg (example_Adapter []) [] False False example_containers
     (example_state [] [] []) =
     (Some (Errorf ''error executing devfile commands - there should be at least 1 command''),
      example_state [] [] []) \<and>
   execDevfile example_Pkg (example_Adapter []) (example_commands example_run) False False
     example_containers (example_state [] [] []) =
     (None,
      \<lparr>trace =
         [Call_ExecuteDevfileBuildAction (Exec example_init) ''devinit'' \<lparr>ContainerName = ''c1''\<rparr> False,
          Call_ExecuteDevfileBuildAction (Exec example_build) ''devbuild'' \<lparr>ContainerName = ''c1''\<rparr> False,
          example_supervisord,
          Call_ExecuteDevfileRunAction (Exec example_run) ''devrun'' \<lparr>ContainerName = ''c1''\<rparr> False],
       world = \<lparr>rt_volumes = [], rt_containers = [], rt_urls = []\<rparr>\<rparr>) \<and>
   execDevfile
     (example_Pkg\<lparr>exec_ExecuteDevfileBuildAction := (\<lambda>exec commandName compInfo show w.
        (if commandName = ''devbuild'' then Some (Errorf ''exit status 1'') else None, w))\<rparr>)
     (example_Adapter []) (example_commands example_run) False False
     example_containers (example_state [] [] []) =
     (Some (Errorf ''exit status 1''),
      \<lparr>trace =
         [Call_ExecuteDevfileBuildAction (Exec example_init) ''devinit'' \<lparr>ContainerName = ''c1''\<rparr> False,
          Call_ExecuteDevfileBuildAction (Exec example_build) ''devbuild'' \<lparr>ContainerName = ''c1''\<rparr> False],
       world = \<lparr>rt_volumes = [], rt_containers = [], rt_urls = []\<rparr>\<rparr>) \<and>
   execDevfile example_Pkg (example_Adapter []) (example_commands example_run) True False
     example_containers (example_state [] [] []) =
     (None,
      \<lparr>trace =
         [Call_ExecuteDevfileBuildAction (Exec example_build) ''devbuild'' \<lparr>ContainerName = ''c1''\<rparr> False,
          Call_ExecuteDevfileRunAction (Exec example_run) ''devrun'' \<lparr>ContainerName = ''c1''\<rparr> False],
       world = \<lparr>rt_volumes = [], rt_containers = [], rt_urls = []\<rparr>\<rparr>)"
proof -
  have maps: "map_of (example_commands example_run) InitCommandGroupType = Some example_init"
    "map_of (example_commands example_run) BuildCommandGroupType = Some example_build"
    "map_of (example_commands example_run) RunCommandGroupType = Some example_run"
    by (simp_all add: example_commands_def)
  note t = execDevfile_order [OF maps]
  note t1 = t [of example_Pkg "example_Adapter []" False False example_containers "example_state [] [] []"]
  note t2 = t [of "example_Pkg\<lparr>exec_ExecuteDevfileBuildAction := (\<lambda>exec commandName compInfo show w.
        (if commandName = ''devbuild'' then Some (Errorf ''exit status 1'') else None, w))\<rparr>"
      "example_Adapter []" False False example_containers "example_state [] [] []"]
  note t1b = t1 [THEN conjunct2, THEN conjunct1]
  note t2b = t2 [THEN conjunct2, THEN conjunct1]
  note t1c = t1 [THEN conjunct2, THEN conjunct2, THEN conjunct1]
  from t1 have a: "execDevfile example_Pkg (example_Adapter []) [] False False example_containers
     (example_state [] [] []) =
     (Some (Errorf ''error executing devfile commands - there should be at least 1 command''),
      example_state [] [] [])"
    by blast
  have b: "execDevfile example_Pkg (example_Adapter []) (example_commands example_run) False False
     example_containers (example_state [] [] []) =
     (None,
      \<lparr>trace =
         [Call_ExecuteDevfileBuildAction (Exec example_init) ''devinit'' \<lparr>ContainerName = ''c1''\<rparr> False,
          Call_ExecuteDevfileBuildAction (Exec example_build) ''devbuild'' \<lparr>ContainerName = ''c1''\<rparr> False,
          example_supervisord,
          Call_ExecuteDevfileRunAction (Exec example_run) ''devrun'' \<lparr>ContainerName = ''c1''\<rparr> False],
       world = \<lparr>rt_volumes = [], rt_containers = [], rt_urls = []\<rparr>\<rparr>)"
    by (subst t1b) (simp add: example_defs command_defs call_defs InitRunContainerSupervisord_def Let_def)
  have c: "execDevfile
     (example_Pkg\<lparr>exec_ExecuteDevfileBuildAction := (\<lambda>exec commandName compInfo show w.
        (if commandName = ''devbuild'' then Some (Errorf ''exit status 1'') else None, w))\<rparr>)
     (example_Adapter []) (example_commands example_run) False False
     example_containers (example_state [] [] []) =
     (Some (Errorf ''exit status 1''),
      \<lparr>trace =
         [Call_ExecuteDevfileBuildAction (Exec example_init) ''devinit'' \<lparr>ContainerName = ''c1''\<rparr> False,
          Call_ExecuteDevfileBuildAction (Exec example_build) ''devbuild'' \<lparr>ContainerName = ''c1''\<rparr> False],
       world = \<lparr>rt_volumes = [], rt_containers = [], rt_urls = []\<rparr>\<rparr>)"
    by (subst t2b) (simp add: example_defs command_defs call_defs InitRunContainerSupervisord_def Let_def)
  have d: "execDevfile example_Pkg (example_Adapter []) (example_commands example_run) True False
     example_containers (example_state [] [] []) =
     (None,
      \<lparr>trace =
         [Call_ExecuteDevfileBuildAction (Exec example_build) ''devbuild'' \<lparr>ContainerName = ''c1''\<rparr> False,
          Call_ExecuteDevfileRunAction (Exec example_run) ''devrun'' \<lparr>ContainerName = ''c1''\<rparr> False],
       world = \<lparr>rt_volumes = [], rt_containers = [], rt_urls = []\<rparr>\<rparr>)"
    by (subst t1c) (simp add: example_defs command_defs call_defs InitRunContainerSupervisord_def Let_def)
  from a b c d show ?thesis
    by (intro conjI)
qed

theorem execDevfile_run_mode_witness:
  "execDevfile example_Pkg (example_Adapter []) (example_commands example_run_norestart) True False
     example_containers (example_state [] [] []) =
     (None,
      \<lparr>trace =
         [Call_ExecuteDevfileBuildAction (Exec example_build) ''devbuild'' \<lparr>ContainerName = ''c1''\<rparr> False,
          Call_ExecuteDevfileRunActionWithoutRestart (Exec example_run_norestart) ''devrun''
            \<lparr>ContainerName = ''c1''\<rparr> False],
       world = \<lparr>rt_volumes = [], rt_containers = [], rt_urls = []\<rparr>\<rparr>) \<and>
   execDevfile
     (example_Pkg\<lparr>exec_ExecuteDevfileBuildAction := (\<lambda>exec commandName compInfo show w.
        (if commandName = ''devbuild'' then Some (Errorf ''exit status 1'') else None, w))\<rparr>)
     (example_Adapter []) (example_commands example_run_norestart) True False
     example_containers (example_state [] [] []) =
     (Some (Errorf ''exit status 1''),
      \<lparr>trace =
         [Call_ExecuteDevfileBuildAction (Exec example_build) ''devbuild'' \<lparr>ContainerName = ''c1''\<rparr> False],
       world = \<lparr>rt_volumes = [], rt_containers = [], rt_urls = []\<rparr>\<rparr>) \<and>
   execDevfile example_Pkg (example_Adapter []) (example_commands example_run) True False
     example_containers (example_state [] [] []) =
     (None,
      \<lparr>trace =
         [Call_ExecuteDevfileBuildAction (Exec example_build) ''devbuild'' \<lparr>ContainerName = ''c1''\<rparr> False,
          Call_ExecuteDevfileRunAction (Exec example_run) ''devrun'' \<lparr>ContainerName = ''c1''\<rparr> False],
       world = \<lparr>rt_volumes = [], rt_containers = [], rt_urls = []\<rparr>\<rparr>) \<and>
   execDevfile example_Pkg (example_Adapter []) (example_commands example_run_norestart) False False
     example_containers (example_state [] [] []) =
     (None,
      \<lparr>trace =
         [Call_ExecuteDevfileBuildAction (Exec example_init) ''devinit'' \<lparr>ContainerName = ''c1''\<rparr> False,
          Call_ExecuteDevfileBuildAction (Exec example_build) ''devbuild'' \<lparr>ContainerName = ''c1''\<rparr> False,
          example_supervisord,
          Call_ExecuteDevfileRunAction (Exec example_run_norestart) ''devrun''
            \<lparr>ContainerName = ''c1''\<rparr> False],
       world = \<lparr>rt_volumes = [], rt_containers = [], rt_urls = []\<rparr>\<rparr>)"
proof -
  let ?P = "example_Pkg\<lparr>exec_ExecuteDevfileBuildAction := (\<lambda>exec commandName compInfo show w.
        (if commandName = ''devbuild'' then Some (Errorf ''exit status 1'') else None, w))\<rparr>"
  have run: "map_of (example_commands r) RunCommandGroupType = Some r" for r
    by (simp add: example_commands_def)
  have nr: "True \<and> \<not> common_IsRestartRequired example_Pkg example_run_norestart"
    by (simp add: example_Pkg_def example_run_norestart_def)
  have nr': "True \<and> \<not> common_IsRestartRequired ?P example_run_norestart"
    by (simp add: example_Pkg_def example_run_norestart_def)
  have re: "\<not> (True \<and> \<not> common_IsRestartRequired example_Pkg example_run)"
    by (simp add: example_Pkg_def example_run_def)
  have new: "\<not> (False \<and> \<not> common_IsRestartRequired example_Pkg example_run_norestart)"
    by simp
  note ta = execDevfile_run_mode [OF run [of example_run_norestart], where P = example_Pkg and componentExists = True,
      THEN conjunct1, THEN mp, OF nr, THEN conjunct1]
  note tb = execDevfile_run_mode [OF run [of example_run_norestart], where P = ?P and componentExists = True,
      THEN conjunct1, THEN mp, OF nr', THEN conjunct1]
  note tc = execDevfile_run_mode [OF run [of example_run], where P = example_Pkg and componentExists = True,
      THEN conjunct2, THEN mp, OF re, THEN conjunct1]
  note td = execDevfile_run_mode [OF run [of example_run_norestart], where P = example_Pkg and componentExists = False,
      THEN conjunct2, THEN mp, OF new, THEN conjunct1]
  have a: "execDevfile example_Pkg (example_Adapter []) (example_commands example_run_norestart) True False
     example_containers (example_state [] [] []) =
     (None,
      \<lparr>trace =
         [Call_ExecuteDevfileBuildAction (Exec example_build) ''devbuild'' \<lparr>ContainerName = ''c1''\<rparr> False,
          Call_ExecuteDevfileRunActionWithoutRestart (Exec example_run_norestart) ''devrun''
            \<lparr>ContainerName = ''c1''\<rparr> False],
       world = \<lparr>rt_volumes = [], rt_containers = [], rt_urls = []\<rparr>\<rparr>)"
    by (subst ta) (simp add: example_defs command_defs call_defs Let_def)
  have b: "execDevfile ?P
     (example_Adapter []) (example_commands example_run_norestart) True False
     example_containers (example_state [] [] []) =
     (Some (Errorf ''exit status 1''),
      \<lparr>trace =
         [Call_ExecuteDevfileBuildAction (Exec example_build) ''devbuild'' \<lparr>ContainerName = ''c1''\<rparr> False],
       world = \<lparr>rt_volumes = [], rt_containers = [], rt_urls = []\<rparr>\<rparr>)"
    by (subst tb) (simp add: example_defs command_defs call_defs Let_def)
  have c: "execDevfile example_Pkg (example_Adapter []) (example_commands example_run) True False
     example_containers (example_state [] [] []) =
     (None,
      \<lparr>trace =
         [Call_ExecuteDevfileBuildAction (Exec example_build) ''devbuild'' \<lparr>ContainerName = ''c1''\<rparr> False,
          Call_ExecuteDevfileRunAction (Exec example_run) ''devrun'' \<lparr>ContainerName = ''c1''\<rparr> False],
       world = \<lparr>rt_volumes = [], rt_containers = [], rt_urls = []\<rparr>\<rparr>)"
    by (subst tc) (simp add: example_defs command_defs call_defs Let_def)
  have d: "execDevfile example_Pkg (example_Adapter []) (example_commands example_run_norestart) False False
     example_containers (example_state [] [] []) =
     (None,
      \<lparr>trace =
         [Call_ExecuteDevfileBuildAction (Exec example_init) ''devinit'' \<lparr>ContainerName = ''c1''\<rparr> False,
          Call_ExecuteDevfileBuildAction (Exec example_build) ''devbuild'' \<lparr>ContainerName = ''c1''\<rparr> False,
          example_supervisord,
          Call_ExecuteDevfileRunAction (Exec example_run_norestart) ''devrun''
            \<lparr>ContainerName = ''c1''\<rparr> False],
       world = \<lparr>rt_volumes = [], rt_containers = [], rt_urls = []\<rparr>\<rparr>)"
    by (subst td) (simp add: example_defs command_defs call_defs InitRunContainerSupervisord_def Let_def)
  from a b c d show ?thesis
    by (intro conjI)
qed

section \<open>The reconciler\<close>

lemma startComponent_trace:
  "startComponent P a mounts projectVolumeName compt s = (err, s') \<Longrightarrow>
   s' = s \<and> err \<noteq> None \<or> (\<exists>cfg hc. trace s' = trace s @ [Call_StartContainer cfg hc])"
  by (auto simp: startComponent_def Client_StartContainer_def Let_def
      split: prod.splits if_splits dest!: acting_trace)

lemma pullAndStartContainer_trace:
  "pullAndStartContainer P a mounts projectVolumeName compt s = (err, s') \<Longrightarrow>
   \<exists>evs. trace s' = trace s @ Call_PullImage (Image (Container compt)) # evs \<and>
     (evs = [] \<or> (\<exists>cfg hc. evs = [Call_StartContainer cfg hc]))"
proof -
  assume run: "pullAndStartContainer P a mounts projectVolumeName compt s = (err, s')"
  obtain e1 s1 where pull: "Client_PullImage a (Image (Container compt)) s = (e1, s1)"
    by (cases "Client_PullImage a (Image (Container compt)) s")
  then have t1: "trace s1 = trace s @ [Call_PullImage (Image (Container compt))]"
    by (auto simp: Client_PullImage_def dest!: acting_trace)
  show ?thesis
  proof (cases "e1 = None")
    case False
    with run pull have "s' = s1"
      by (auto simp: pullAndStartContainer_def)
    with t1 show ?thesis by simp
  next
    case True
    obtain e2 s2 where start: "startComponent P a mounts projectVolumeName compt s1 = (e2, s2)"
      by (cases "startComponent P a mounts projectVolumeName compt s1")
    with True run pull have "s' = s2"
      by (auto simp: pullAndStartContainer_def split: if_splits)
    with startComponent_trace [OF start] t1 show ?thesis
      by auto
  qed
qed

lemma updateComponent_body_recreate:
  assumes "GetContainersByComponentAndAlias (Client a) (ComponentName a) (Name (Container compt)) (world s) =
             ([container], None)"
    and "GetContainerConfigHostConfigAndMounts (Client a) (ID container) (world s) =
             (containerConfig, hostConfig, mounts, None)"
    and "getPortMap P (Context a) (Endpoints (Container compt)) False (world s) =
             (portMap, namePortMapping, None)"
    and "utils_DoesContainerNeedUpdating P compt (setPortLabels P namePortMapping containerConfig) hostConfig
             (dockerVolumeMounts_of a compt) mounts portMap"
    and "updateComponent_body P a projectVolumeName compt componentExists s = (r, s')"
  shows "\<exists>evs. trace s' = trace s @
            [Call_GetContainersByComponentAndAlias (ComponentName a) (Name (Container compt))
               ([container], None),
             Call_GetContainerConfigHostConfigAndMounts (ID container),
             Call_RemoveContainer (ID container)] @ evs \<and>
           (evs = [] \<and> (\<exists>flag e. r = Inl (flag, Some e)) \<or>
            (\<exists>cfg hc. evs = [Call_StartContainer cfg hc]) \<and>
            (r = Inr False \<or> (\<exists>e. r = Inl (False, Some e)))) \<and>
           (\<forall>img. Call_PullImage img \<notin> set evs)"
proof -
  let ?L = "Call_GetContainersByComponentAndAlias (ComponentName a) (Name (Container compt)) ([container], None)"
  let ?G = "Call_GetContainerConfigHostConfigAndMounts (ID container)"
  let ?R = "Call_RemoveContainer (ID container)"
  let ?s2 = "s\<lparr>trace := trace s @ [?L, ?G]\<rparr>"
  obtain e3 s3 where rm: "Client_RemoveContainer a (ID container) ?s2 = (e3, s3)"
    by (cases "Client_RemoveContainer a (ID container) ?s2")
  then have t3: "trace s3 = trace s @ [?L, ?G, ?R]"
    by (auto simp: Client_RemoveContainer_def dest!: acting_trace)
  obtain e4 s4 where st: "startComponent P a (dockerVolumeMounts_of a compt) projectVolumeName compt s3 = (e4, s4)"
    by (cases "startComponent P a (dockerVolumeMounts_of a compt) projectVolumeName compt s3")
  have body: "updateComponent_body P a projectVolumeName compt componentExists s =
      (if e3 \<noteq> None
       then (Inl (componentExists, Wrapf e3 (''Unable to remove container '' @ ID container @
               '' for component '' @ Name (Container compt))), s3)
       else if e4 \<noteq> None
       then (Inl (False, Wrapf e4 (''Unable to start container for devfile component '' @
               Name (Container compt))), s4)
       else (Inr False, s4))"
    using assms(1-4) rm st
    by (simp add: updateComponent_body_def Client_GetContainersByComponentAndAlias_def
        Client_GetContainerConfigHostConfigAndMounts_def reading_def Let_def)
  show ?thesis
  proof (cases "e3 = None")
    case False
    with body assms(5) have "s' = s3" "\<exists>flag e. r = Inl (flag, Some e)"
      by (auto simp: Wrapf_def)
    with t3 show ?thesis
      by (intro exI [of _ "[]"]) auto
  next
    case True
    with body assms(5) have s': "s' = s4" and r: "r = Inr False \<or> (\<exists>e. r = Inl (False, Some e))"
      and e4: "e4 = None \<longrightarrow> r = Inr False"
      by (auto simp: Wrapf_def split: if_splits)
    from startComponent_trace [OF st]
    consider "s4 = s3" "e4 \<noteq> None" | cfg hc where "trace s4 = trace s3 @ [Call_StartContainer cfg hc]"
      by blast
    then show ?thesis
    proof cases
      case 1
      with True body assms(5) have "\<exists>flag e. r = Inl (flag, Some e)"
        by (auto simp: Wrapf_def)
      with 1 s' t3 show ?thesis
        by (intro exI [of _ "[]"]) auto
    next
      case 2
      with s' t3 r show ?thesis
        by (intro exI [of _ "[Call_StartContainer cfg hc]"]) auto
    qed
  qed
qed

text \<open>
  C1. In the one-match branch with a configuration that needs updating, the existing
  container should be removed and the image pulled before the replacement is started,
  as the zero-match branch does through \<open>pullAndStartContainer\<close>. The code calls
  \<open>startComponent\<close> right after \<open>RemoveContainer\<close>: the calls of the pass over this
  component are the listing, the inspection, the removal and at most one
  \<open>StartContainer\<close>, with no \<open>PullImage\<close>. The flag is false when both calls succeed.
\<close>

theorem recreate_does_not_pull:
  assumes "GetContainersByComponentAndAlias (Client a) (ComponentName a) (Name (Container compt)) (world s) =
             ([container], None)"
    and "GetContainerConfigHostConfigAndMounts (Client a) (ID container) (world s) =
             (containerConfig, hostConfig, mounts, None)"
    and "getPortMap P (Context a) (Endpoints (Container compt)) False (world s) =
             (portMap, namePortMapping, None)"
    and "utils_DoesContainerNeedUpdating P compt (setPortLabels P namePortMapping containerConfig) hostConfig
             (dockerVolumeMounts_of a compt) mounts portMap"
    and "updateComponent_body P a projectVolumeName compt componentExists s = (r, s')"
  shows "\<exists>evs. trace s' = trace s @
            [Call_GetContainersByComponentAndAlias (ComponentName a) (Name (Container compt))
               ([container], None),
             Call_GetContainerConfigHostConfigAndMounts (ID container),
             Call_RemoveContainer (ID container)] @ evs \<and>
           (evs = [] \<and> (\<exists>flag e. r = Inl (flag, Some e)) \<or>
            (\<exists>cfg hc. evs = [Call_StartContainer cfg hc]) \<and>
            (r = Inr False \<or> (\<exists>e. r = Inl (False, Some e)))) \<and>
           (\<forall>img. Call_PullImage img \<notin> set evs)"
  using assms by (rule updateComponent_body_recreate)

lemma example_recreate:
  "updateComponent_body example_Pkg (example_Adapter [example_component]) ''v1'' example_component True
     (example_state [example_volume ''v1''] [example_live ''node:10''] []) =
     (Inr False,
      \<lparr>trace =
         [Call_GetContainersByComponentAndAlias ''app'' ''runtime'' ([fst (example_live ''node:10'')], None),
          Call_GetContainerConfigHostConfigAndMounts ''c1'',
          Call_RemoveContainer ''c1'',
          Call_StartContainer (snd (example_live ''node:12''))
            \<lparr>PortBindings = [], Mounts = [], Binds = [], Privileged = False, PublishAllPorts = False\<rparr>],
       world =
         \<lparr>rt_volumes = [example_volume ''v1''],
          rt_containers =
            [(\<lparr>ID = ''new'', Labels = [(''component'', ''app''), (''alias'', ''runtime'')],
               Container_Command = []\<rparr>, snd (example_live ''node:12''))],
          rt_urls = []\<rparr>\<rparr>)"
  by (simp add: updateComponent_body_def example_defs example_live_def start_defs call_defs Itoa_defs Let_def)

theorem recreate_does_not_pull_witness:
  "\<exists>evs.
     [Call_GetContainersByComponentAndAlias ''app'' ''runtime'' ([fst (example_live ''node:10'')], None),
      Call_GetContainerConfigHostConfigAndMounts ''c1'',
      Call_RemoveContainer ''c1'',
      Call_StartContainer (snd (example_live ''node:12''))
        \<lparr>PortBindings = [], Mounts = [], Binds = [], Privileged = False, PublishAllPorts = False\<rparr>] =
     [Call_GetContainersByComponentAndAlias ''app'' ''runtime'' ([fst (example_live ''node:10'')], None),
      Call_GetContainerConfigHostConfigAndMounts ''c1'',
      Call_RemoveContainer ''c1''] @ evs \<and>
     (\<exists>cfg hc. evs = [Call_StartContainer cfg hc]) \<and>
     (\<forall>img. Call_PullImage img \<notin> set evs)"
proof -
  let ?a = "example_Adapter [example_component]"
  let ?s = "example_state [example_volume ''v1''] [example_live ''node:10''] []"
  have 1: "GetContainersByComponentAndAlias (Client ?a) (ComponentName ?a) (Name (Container example_component))
             (world ?s) = ([fst (example_live ''node:10'')], None)"
    by (simp add: example_defs example_live_def)
  have 2: "GetContainerConfigHostConfigAndMounts (Client ?a) (ID (fst (example_live ''node:10''))) (world ?s) =
             (snd (example_live ''node:10''), HostConfig_zero, [], None)"
    by (simp add: example_defs example_live_def)
  have 3: "getPortMap example_Pkg (Context ?a) (Endpoints (Container example_component)) False (world ?s) =
             ([], [], None)"
    by (simp add: example_defs getPortMap_def)
  have 4: "utils_DoesContainerNeedUpdating example_Pkg example_component
             (setPortLabels example_Pkg [] (snd (example_live ''node:10''))) HostConfig_zero
             (dockerVolumeMounts_of ?a example_component) [] []"
    by (simp add: example_defs example_live_def setPortLabels_def)
  from recreate_does_not_pull [OF 1 2 3 4 example_recreate]
  show ?thesis
    by (simp add: example_defs example_live_def)
qed

section \<open>More than one live container\<close>

lemma updateComponent_body_trace:
  assumes "updateComponent_body P a projectVolumeName compt componentExists s = (r, s')"
  shows "\<exists>containers err rest.
     trace s' = trace s @
       Call_GetContainersByComponentAndAlias (ComponentName a) (Name (Container compt)) (containers, err) # rest \<and>
     (\<forall>cn al res. Call_GetContainersByComponentAndAlias cn al res \<notin> set rest) \<and>
     (err = None \<and> 2 \<le> length containers \<longrightarrow>
        rest = [] \<and> world s' = world s \<and>
        (\<exists>e. r = Inl (True, Some e))) \<and>
     ((\<exists>flag. r = Inr flag) \<longrightarrow> err = None \<and> length containers \<le> 1)"
proof -
  obtain containers err where l:
    "GetContainersByComponentAndAlias (Client a) (ComponentName a) (Name (Container compt)) (world s) =
       (containers, err)"
    by (cases "GetContainersByComponentAndAlias (Client a) (ComponentName a) (Name (Container compt)) (world s)")
  let ?L = "Call_GetContainersByComponentAndAlias (ComponentName a) (Name (Container compt)) (containers, err)"
  let ?s1 = "s\<lparr>trace := trace s @ [?L]\<rparr>"
  have list: "Client_GetContainersByComponentAndAlias a (ComponentName a) (Name (Container compt)) s =
      ((containers, err), ?s1)"
    using l by (simp add: Client_GetContainersByComponentAndAlias_def reading_def Let_def)
  let ?goal = "\<lambda>rest. trace s' = trace s @ ?L # rest \<and>
     (\<forall>cn al res. Call_GetContainersByComponentAndAlias cn al res \<notin> set rest) \<and>
     (err = None \<and> 2 \<le> length containers \<longrightarrow>
        rest = [] \<and> world s' = world s \<and>
        (\<exists>e. r = Inl (True, Some e))) \<and>
     ((\<exists>flag. r = Inr flag) \<longrightarrow> err = None \<and> length containers \<le> 1)"
  have "\<exists>rest. ?goal rest"
  proof (cases "err = None")
    case False
    with list have "updateComponent_body P a projectVolumeName compt componentExists s =
        (Inl (False, Wrapf err (''unable to list containers for component '' @ ComponentName a)), ?s1)"
      by (simp add: updateComponent_body_def Let_def)
    with assms have "s' = ?s1" "\<exists>x. r = Inl x"
      by auto
    then have "?goal []"
      using False by auto
    then show ?thesis ..
  next
    case ok: True
    consider (zero) "length containers = 0" | (one) "length containers = 1" | (many) "2 \<le> length containers"
      by linarith
    then show ?thesis
    proof cases
      case zero
      obtain e2 s2 where p: "pullAndStartContainer P a (dockerVolumeMounts_of a compt) projectVolumeName compt ?s1 =
          (e2, s2)"
        by (cases "pullAndStartContainer P a (dockerVolumeMounts_of a compt) projectVolumeName compt ?s1")
      have "updateComponent_body P a projectVolumeName compt componentExists s =
          (if e2 \<noteq> None
           then (Inl (False, Wrapf e2 (''unable to pull and start container '' @
                   Name (Container compt) @ '' for component '' @ ComponentName a)), s2)
           else (Inr False, s2))"
        using list ok zero p by (simp add: updateComponent_body_def Let_def)
      with assms have "s' = s2"
        by (simp split: if_splits)
      moreover from pullAndStartContainer_trace [OF p] obtain evs where
        "trace s2 = trace ?s1 @ Call_PullImage (Image (Container compt)) # evs"
        "evs = [] \<or> (\<exists>cfg hc. evs = [Call_StartContainer cfg hc])"
        by blast
      ultimately have "?goal (Call_PullImage (Image (Container compt)) # evs)"
        using ok zero by auto
      then show ?thesis ..
    next
      case many
      then have "length containers \<noteq> 0" "length containers \<noteq> 1"
        by auto
      define msg where "msg = ''Found multiple running containers for devfile component '' @
              Name (Container compt) @ '' and cannot push changes''"
      from list ok \<open>length containers \<noteq> 0\<close> \<open>length containers \<noteq> 1\<close>
      have "updateComponent_body P a projectVolumeName compt componentExists s =
          (Inl (True, Some (Errorf msg)), ?s1)"
        unfolding msg_def by (simp add: updateComponent_body_def Let_def)
      with assms have "s' = ?s1" "r = Inl (True, Some (Errorf msg))"
        by simp_all
      then have "s' = ?s1" "\<exists>e. r = Inl (True, Some e)"
        by blast+
      then have "?goal []"
        using many by auto
      then show ?thesis ..
    next
      case one
      let ?id = "ID (containers ! 0)"
      let ?G = "Call_GetContainerConfigHostConfigAndMounts ?id"
      obtain cfg hc ms e2 where g:
        "GetContainerConfigHostConfigAndMounts (Client a) ?id (world s) = (cfg, hc, ms, e2)"
        by (cases "GetContainerConfigHostConfigAndMounts (Client a) ?id (world s)") auto
      let ?s2 = "s\<lparr>trace := trace s @ [?L, ?G]\<rparr>"
      have ins: "Client_GetContainerConfigHostConfigAndMounts a ?id ?s1 = ((cfg, hc, ms, e2), ?s2)"
        using g by (simp add: Client_GetContainerConfigHostConfigAndMounts_def reading_def Let_def)
      obtain pm nm e3 where m: "getPortMap P (Context a) (Endpoints (Container compt)) False (world s) = (pm, nm, e3)"
        by (cases "getPortMap P (Context a) (Endpoints (Container compt)) False (world s)") auto
      show ?thesis
      proof (cases "e2 = None \<and> e3 = None \<and>
          utils_DoesContainerNeedUpdating P compt (setPortLabels P nm cfg) hc (dockerVolumeMounts_of a compt) ms pm")
        case False
        then consider (a) "e2 \<noteq> None" | (b) "e2 = None" "e3 \<noteq> None"
          | (c) "e2 = None" "e3 = None"
              "\<not> utils_DoesContainerNeedUpdating P compt (setPortLabels P nm cfg) hc
                  (dockerVolumeMounts_of a compt) ms pm"
          by auto
        then have "\<exists>x. updateComponent_body P a projectVolumeName compt componentExists s = (x, ?s2)"
        proof cases
          case a
          with list ok one ins show ?thesis
            by (simp add: updateComponent_body_def Let_def)
        next
          case b
          with list ok one ins m show ?thesis
            by (simp add: updateComponent_body_def Let_def)
        next
          case c
          with list ok one ins m show ?thesis
            by (simp add: updateComponent_body_def Let_def)
        qed
        with assms have "s' = ?s2"
          by auto
        then have "?goal [?G]"
          using ok one by auto
        then show ?thesis ..
      next
        case True
        from one obtain x where c: "containers = [x]"
          by (cases containers) auto
        then have x: "containers ! 0 = x"
          by simp
        from l c ok have l': "GetContainersByComponentAndAlias (Client a) (ComponentName a)
            (Name (Container compt)) (world s) = ([x], None)"
          by simp
        from True g m x have g': "GetContainerConfigHostConfigAndMounts (Client a) (ID x) (world s) =
            (cfg, hc, ms, None)"
          and m': "getPortMap P (Context a) (Endpoints (Container compt)) False (world s) = (pm, nm, None)"
          and n': "utils_DoesContainerNeedUpdating P compt (setPortLabels P nm cfg) hc
                     (dockerVolumeMounts_of a compt) ms pm"
          by simp_all
        from updateComponent_body_recreate [OF l' g' m' n' assms]
        obtain evs where "trace s' = trace s @
            [Call_GetContainersByComponentAndAlias (ComponentName a) (Name (Container compt)) ([x], None),
             Call_GetContainerConfigHostConfigAndMounts (ID x), Call_RemoveContainer (ID x)] @ evs"
          "evs = [] \<or> (\<exists>cfg hc. evs = [Call_StartContainer cfg hc])"
          by blast
        with c ok x have "trace s' = trace s @ ?L # ?G # Call_RemoveContainer ?id # evs"
          "evs = [] \<or> (\<exists>cfg hc. evs = [Call_StartContainer cfg hc])"
          by simp_all
        then have "?goal (?G # Call_RemoveContainer ?id # evs)"
          using ok one by auto
        then show ?thesis ..
      qed
    qed
  qed
  then show ?thesis
    by blast
qed

lemma updateComponent_loop_trace:
  "updateComponent_loop P a projectVolumeName err0 supportedComponents componentExists s = ((flag, err), s') \<Longrightarrow>
   \<exists>evs. trace s' = trace s @ evs \<and>
     (\<forall>cn al containers.
        Call_GetContainersByComponentAndAlias cn al (containers, None) \<in> set evs \<and> 2 \<le> length containers \<longrightarrow>
        flag \<and> (\<exists>e. err = Some e) \<and>
        (\<exists>pre. evs = pre @ [Call_GetContainersByComponentAndAlias cn al (containers, None)]))"
proof (induction supportedComponents arbitrary: componentExists s)
  case Nil
  then have "trace s' = trace s @ []"
    by simp
  then show ?case
    by (intro exI [of _ "[]"]) simp
next
  case (Cons compt supportedComponents)
  obtain r s1 where body: "updateComponent_body P a projectVolumeName compt componentExists s = (r, s1)"
    by (cases "updateComponent_body P a projectVolumeName compt componentExists s")
  from updateComponent_body_trace [OF body] obtain containers e rest where
    t1: "trace s1 = trace s @
           Call_GetContainersByComponentAndAlias (ComponentName a) (Name (Container compt)) (containers, e) # rest"
    and nolist: "\<forall>cn al res. Call_GetContainersByComponentAndAlias cn al res \<notin> set rest"
    and many: "e = None \<and> 2 \<le> length containers \<longrightarrow>
                 rest = [] \<and> world s1 = world s \<and> (\<exists>e'. r = Inl (True, Some e'))"
    and cont: "(\<exists>f. r = Inr f) \<longrightarrow> e = None \<and> length containers \<le> 1"
    by blast
  let ?L = "Call_GetContainersByComponentAndAlias (ComponentName a) (Name (Container compt)) (containers, e)"
  show ?case
  proof (cases r)
    case (Inl x)
    with body Cons.prems have x: "x = (flag, err)" and s': "s' = s1"
      by simp_all
    have "\<forall>cn al cs.
        Call_GetContainersByComponentAndAlias cn al (cs, None) \<in> set (?L # rest) \<and> 2 \<le> length cs \<longrightarrow>
        flag \<and> (\<exists>e. err = Some e) \<and>
        (\<exists>pre. ?L # rest = pre @ [Call_GetContainersByComponentAndAlias cn al (cs, None)])"
    proof (intro allI impI)
      fix cn al cs
      assume h: "Call_GetContainersByComponentAndAlias cn al (cs, None) \<in> set (?L # rest) \<and> 2 \<le> length cs"
      with nolist have eq: "Call_GetContainersByComponentAndAlias cn al (cs, None) = ?L"
        by auto
      then have "e = None" "containers = cs"
        by simp_all
      with h many have "rest = []" "\<exists>e'. r = Inl (True, Some e')"
        by simp_all
      with Inl x eq show "flag \<and> (\<exists>e. err = Some e) \<and>
        (\<exists>pre. ?L # rest = pre @ [Call_GetContainersByComponentAndAlias cn al (cs, None)])"
        by auto
    qed
    with t1 s' show ?thesis
      by (intro exI [of _ "?L # rest"]) simp
  next
    case (Inr f)
    with body Cons.prems
    have "updateComponent_loop P a projectVolumeName err0 supportedComponents f s1 = ((flag, err), s')"
      by simp
    from Cons.IH [OF this] obtain evs2 where
      t2: "trace s' = trace s1 @ evs2"
      and ih: "\<forall>cn al cs.
        Call_GetContainersByComponentAndAlias cn al (cs, None) \<in> set evs2 \<and> 2 \<le> length cs \<longrightarrow>
        flag \<and> (\<exists>e. err = Some e) \<and>
        (\<exists>pre. evs2 = pre @ [Call_GetContainersByComponentAndAlias cn al (cs, None)])"
      by blast
    from Inr cont have small: "e = None" "length containers \<le> 1"
      by auto
    have "\<forall>cn al cs.
        Call_GetContainersByComponentAndAlias cn al (cs, None) \<in> set ((?L # rest) @ evs2) \<and> 2 \<le> length cs \<longrightarrow>
        flag \<and> (\<exists>e. err = Some e) \<and>
        (\<exists>pre. (?L # rest) @ evs2 = pre @ [Call_GetContainersByComponentAndAlias cn al (cs, None)])"
    proof (intro allI impI)
      fix cn al cs
      assume h: "Call_GetContainersByComponentAndAlias cn al (cs, None) \<in> set ((?L # rest) @ evs2) \<and>
                 2 \<le> length cs"
      with nolist small have "Call_GetContainersByComponentAndAlias cn al (cs, None) \<in> set evs2"
        by auto
      with h ih obtain pre where "flag" "\<exists>e. err = Some e"
        "evs2 = pre @ [Call_GetContainersByComponentAndAlias cn al (cs, None)]"
        by blast
      then show "flag \<and> (\<exists>e. err = Some e) \<and>
        (\<exists>pre. (?L # rest) @ evs2 = pre @ [Call_GetContainersByComponentAndAlias cn al (cs, None)])"
        by (intro conjI exI [of _ "(?L # rest) @ pre"]) simp_all
    qed
    with t1 t2 show ?thesis
      by (intro exI [of _ "(?L # rest) @ evs2"]) simp
  qed
qed

lemma updateComponent_trace:
  assumes "updateComponent P a s = ((flag, err), s')"
  shows "\<exists>evs. trace s' = trace s @ evs \<and>
     (\<forall>cn al containers.
        Call_GetContainersByComponentAndAlias cn al (containers, None) \<in> set evs \<and> 2 \<le> length containers \<longrightarrow>
        flag \<and> (\<exists>e. err = Some e) \<and>
        (\<exists>pre. evs = pre @ [Call_GetContainersByComponentAndAlias cn al (containers, None)]))"
proof -
  let ?labels = "utils_GetProjectVolumeLabels P (ComponentName a)"
  obtain vols e0 where l: "GetVolumesByLabel (Client a) ?labels (world s) = (vols, e0)"
    by (cases "GetVolumesByLabel (Client a) ?labels (world s)")
  let ?V = "Call_GetVolumesByLabel ?labels (vols, e0)"
  let ?s1 = "s\<lparr>trace := trace s @ [?V]\<rparr>"
  have "\<exists>x. updateComponent_projectVolume P a True s = (x, ?s1)"
    using l by (simp add: updateComponent_projectVolume_def Client_GetVolumesByLabel_def reading_def Let_def)
  then obtain x where vol: "updateComponent_projectVolume P a True s = (x, ?s1)"
    by blast
  show ?thesis
  proof (cases x)
    case (Inl r)
    with vol assms have "s' = ?s1"
      by (simp add: updateComponent_def Let_def)
    then show ?thesis
      by (intro exI [of _ "[?V]"]) simp
  next
    case (Inr projectVolumeName)
    obtain e1 s2 where sto: "stoAdapter_Create P (uniqueStorage a) ?s1 = (e1, s2)"
      by (cases "stoAdapter_Create P (uniqueStorage a) ?s1")
    then have t2: "trace s2 = trace s @ [?V, Call_storage_Create (uniqueStorage a)]"
      by (auto simp: stoAdapter_Create_def dest!: acting_trace)
    show ?thesis
    proof (cases "length (common_GetSupportedComponents P (Devfile_Data a)) = 0")
      case True
      with Inr vol sto assms have "s' = s2"
        by (simp add: updateComponent_def Let_def)
      with t2 show ?thesis
        by (intro exI [of _ "[?V, Call_storage_Create (uniqueStorage a)]"]) simp
    next
      case False
      with Inr vol sto assms
      have "updateComponent_loop P a projectVolumeName e1 (common_GetSupportedComponents P (Devfile_Data a))
              True s2 = ((flag, err), s')"
        by (simp add: updateComponent_def Let_def)
      from updateComponent_loop_trace [OF this] obtain evs where
        t3: "trace s' = trace s2 @ evs"
        and ih: "\<forall>cn al cs.
          Call_GetContainersByComponentAndAlias cn al (cs, None) \<in> set evs \<and> 2 \<le> length cs \<longrightarrow>
          flag \<and> (\<exists>e. err = Some e) \<and>
          (\<exists>pre. evs = pre @ [Call_GetContainersByComponentAndAlias cn al (cs, None)])"
        by blast
      let ?pre = "[?V, Call_storage_Create (uniqueStorage a)]"
      have "\<forall>cn al cs.
          Call_GetContainersByComponentAndAlias cn al (cs, None) \<in> set (?pre @ evs) \<and> 2 \<le> length cs \<longrightarrow>
          flag \<and> (\<exists>e. err = Some e) \<and>
          (\<exists>pre. ?pre @ evs = pre @ [Call_GetContainersByComponentAndAlias cn al (cs, None)])"
      proof (intro allI impI)
        fix cn al cs
        assume h: "Call_GetContainersByComponentAndAlias cn al (cs, None) \<in> set (?pre @ evs) \<and> 2 \<le> length cs"
        then have "Call_GetContainersByComponentAndAlias cn al (cs, None) \<in> set evs"
          by auto
        with h ih obtain pre where "flag" "\<exists>e. err = Some e"
          "evs = pre @ [Call_GetContainersByComponentAndAlias cn al (cs, None)]"
          by blast
        then show "flag \<and> (\<exists>e. err = Some e) \<and>
          (\<exists>pre. ?pre @ evs = pre @ [Call_GetContainersByComponentAndAlias cn al (cs, None)])"
          by (intro conjI exI [of _ "?pre @ pre"]) simp_all
      qed
      with t2 t3 show ?thesis
        by (intro exI [of _ "?pre @ evs"]) simp
    qed
  qed
qed

text \<open>
  C8. The runtime lists two live containers, \<open>c1\<close> and \<open>c2\<close>, for the component \<open>app\<close>
  and the alias \<open>runtime\<close>. Reconciliation should fail with a non-nil error. With one
  project source volume it does: the pass lists the two containers, makes no call after
  that and returns the error of line 195 (so does every pass that lists two or more
  containers, lemma \<open>updateComponent_trace\<close>). With two project source volumes listed the
  pass returns \<open>(true, nil)\<close> from line 108 (the defect of C2), its one call being the
  listing of the volumes: the two containers are never listed and no error is returned,
  so nothing tells the caller of the pass not to run the devfile commands.
\<close>

theorem multiple_containers_pass_returns_nil:
  "GetContainersByComponentAndAlias example_Client ''app'' ''runtime''
     \<lparr>rt_volumes = [example_volume ''v1'', example_volume ''v2''],
      rt_containers = [example_live ''node:12'', example_duplicate], rt_urls = []\<rparr> =
     ([fst (example_live ''node:12''), fst example_duplicate], None) \<and>
   updateComponent example_Pkg (example_Adapter [example_component])
     (example_state [example_volume ''v1'', example_volume ''v2'']
        [example_live ''node:12'', example_duplicate] []) =
     ((True, None),
      \<lparr>trace =
         [Call_GetVolumesByLabel [(''component'', ''app''), (''type'', ''projects'')]
            ([example_volume ''v1'', example_volume ''v2''], None)],
       world = \<lparr>rt_volumes = [example_volume ''v1'', example_volume ''v2''],
                rt_containers = [example_live ''node:12'', example_duplicate], rt_urls = []\<rparr>\<rparr>) \<and>
   updateComponent example_Pkg (example_Adapter [example_component])
     (example_state [example_volume ''v1''] [example_live ''node:12'', example_duplicate] []) =
     ((True, Some (Errorf
         ''Found multiple running containers for devfile component runtime and cannot push changes'')),
      \<lparr>trace =
         [Call_GetVolumesByLabel [(''component'', ''app''), (''type'', ''projects'')]
            ([example_volume ''v1''], None),
          Call_storage_Create [],
          Call_GetContainersByComponentAndAlias ''app'' ''runtime''
            ([fst (example_live ''node:12''), fst example_duplicate], None)],
       world = \<lparr>rt_volumes = [example_volume ''v1''],
                rt_containers = [example_live ''node:12'', example_duplicate], rt_urls = []\<rparr>\<rparr>)"
proof -
  have listed: "GetContainersByComponentAndAlias example_Client ''app'' ''runtime''
     \<lparr>rt_volumes = [example_volume ''v1'', example_volume ''v2''],
      rt_containers = [example_live ''node:12'', example_duplicate], rt_urls = []\<rparr> =
     ([fst (example_live ''node:12''), fst example_duplicate], None)"
    by (simp add: example_defs example_live_def example_duplicate_def)
  have two: "updateComponent example_Pkg (example_Adapter [example_component])
     (example_state [example_volume ''v1'', example_volume ''v2'']
        [example_live ''node:12'', example_duplicate] []) =
     ((True, None),
      \<lparr>trace =
         [Call_GetVolumesByLabel [(''component'', ''app''), (''type'', ''projects'')]
            ([example_volume ''v1'', example_volume ''v2''], None)],
       world = \<lparr>rt_volumes = [example_volume ''v1'', example_volume ''v2''],
                rt_containers = [example_live ''node:12'', example_duplicate], rt_urls = []\<rparr>\<rparr>)"
    by (simp add: updateComponent_def updateComponent_projectVolume_def example_defs call_defs Wrapf_def
        Let_def)
  have one: "updateComponent example_Pkg (example_Adapter [example_component])
     (example_state [example_volume ''v1''] [example_live ''node:12'', example_duplicate] []) =
     ((True, Some (Errorf
         ''Found multiple running containers for devfile component runtime and cannot push changes'')),
      \<lparr>trace =
         [Call_GetVolumesByLabel [(''component'', ''app''), (''type'', ''projects'')]
            ([example_volume ''v1''], None),
          Call_storage_Create [],
          Call_GetContainersByComponentAndAlias ''app'' ''runtime''
            ([fst (example_live ''node:12''), fst example_duplicate], None)],
       world = \<lparr>rt_volumes = [example_volume ''v1''],
                rt_containers = [example_live ''node:12'', example_duplicate], rt_urls = []\<rparr>\<rparr>)"
    by (simp add: updateComponent_def updateComponent_projectVolume_def updateComponent_body_def
        example_defs example_live_def example_duplicate_def call_defs Let_def)
  from listed two one show ?thesis
    by (intro conjI)
qed

section \<open>The flag of the update pass\<close>

text \<open>
  C10. The flag of a successful update pass should be true only when every declared
  container was found and up to date. With two project source volumes listed,
  \<open>updateComponent\<close> returns \<open>(true, nil)\<close> from line 108 before any container is looked
  at (the defect of C2): here the declared container \<open>runtime\<close> has no live container
  at all, and the pass reports success with the flag true.
\<close>

theorem componentExists_true_without_containers:
  "fst (updateComponent example_Pkg (example_Adapter [example_component])
          (example_state [example_volume ''v1'', example_volume ''v2''] [] [])) = (True, None) \<and>
   world (snd (updateComponent example_Pkg (example_Adapter [example_component])
          (example_state [example_volume ''v1'', example_volume ''v2''] [] []))) =
     \<lparr>rt_volumes = [example_volume ''v1'', example_volume ''v2''], rt_containers = [], rt_urls = []\<rparr> \<and>
   GetContainersByComponentAndAlias example_Client ''app'' ''runtime''
     \<lparr>rt_volumes = [example_volume ''v1'', example_volume ''v2''], rt_containers = [], rt_urls = []\<rparr> =
     ([], None)"
  by (simp add: updateComponent_def updateComponent_projectVolume_def example_defs call_defs Wrapf_def
      Let_def)

end
